theory Spec2Isabelle
  imports Main "HOL-Library.Sublist"
begin

section \<open>JavaScript values\<close>

text \<open>
  Tool arguments arrive as JSON.  A value of the argument bag is \<open>undefined\<close> (the key is
  missing), a JSON scalar, or an array or object.  The code only converts such a value to
  a string, tests its truthiness, compares it with \<^verbatim>\<open>===\<close> or calls a method on it, so an
  array or object is given by its string conversion.  Numbers are modelled by the
  integers: the properties verified below concern control flow, caching, sessions and the
  shape of results, none of which depends on fractional readings.
\<close>

datatype jsval = JUndefined | JNull | JBool bool | JNum int | JStr string | JObject string

text \<open>Truthiness, as tested by \<^verbatim>\<open>if (v)\<close> and \<^verbatim>\<open>a || b\<close>.\<close>

fun truthy :: "jsval \<Rightarrow> bool" where
  "truthy JUndefined = False"
| "truthy JNull = False"
| "truthy (JBool b) = b"
| "truthy (JNum n) = (n \<noteq> 0)"
| "truthy (JStr s) = (s \<noteq> [])"
| "truthy (JObject s) = True"

text \<open>Decimal rendering of an integer, as a template literal prints it.\<close>

definition digit_char :: "nat \<Rightarrow> char" where
  "digit_char d = ''0123456789'' ! d"

fun show_nat :: "nat \<Rightarrow> string" where
  "show_nat n = (if n < 10 then [digit_char n] else show_nat (n div 10) @ [digit_char (n mod 10)])"

declare show_nat.simps [simp del]

definition show_int :: "int \<Rightarrow> string" where
  "show_int i = (if i < 0 then CHR ''-'' # show_nat (nat (- i)) else show_nat (nat i))"

text \<open>String conversion of a value inside a template literal \<^verbatim>\<open>`${v}`\<close>.\<close>

fun to_str :: "jsval \<Rightarrow> string" where
  "to_str JUndefined = ''undefined''"
| "to_str JNull = ''null''"
| "to_str (JBool b) = (if b then ''true'' else ''false'')"
| "to_str (JNum n) = show_int n"
| "to_str (JStr s) = s"
| "to_str (JObject s) = s"

text \<open>
  An argument bag, each key once: \<^verbatim>\<open>args.key\<close> is \<open>undefined\<close> for a key that is not
  there.
\<close>

type_synonym arguments = "(string \<times> jsval) list"

definition arg :: "arguments \<Rightarrow> string \<Rightarrow> jsval" where
  "arg args k = (case map_of args k of None \<Rightarrow> JUndefined | Some v \<Rightarrow> v)"

section \<open>The chat gateway's MCP client (session manager)\<close>

text \<open>
  The gateway talks JSON-RPC over HTTP to the tool server.  A request is the JSON-RPC
  method with, possibly, an \<^verbatim>\<open>mcp-session-id\<close> header.
\<close>

datatype rpc_method = Initialize | ToolsCall string arguments

record http_request =
  session_header :: "string option"
  rpc :: rpc_method

text \<open>
  A JSON-RPC message read from the response: \<open>rpc_error\<close> is \<^verbatim>\<open>jsonData.error\<close>
  (\<open>None\<close> when falsy, otherwise its \<^verbatim>\<open>message\<close>, itself possibly missing),
  \<open>rpc_result\<close> is \<^verbatim>\<open>jsonData.result\<close> (\<open>None\<close> when falsy), kept as the
  serialised result object.
\<close>

record rpc_message =
  rpc_error :: "string option option"
  rpc_result :: "string option"

text \<open>
  \<^verbatim>\<open>response.data\<close>, classified by the tests the client applies to it, in the order of
  the source: falsy data; a string holding \<^verbatim>\<open>event: message\<close> (server-sent events)
  without a line starting \<^verbatim>\<open>data: \<close>, with one that \<^verbatim>\<open>JSON.parse\<close> rejects (the
  exception's message), or with one that parses; any other string; a JSON object.
\<close>

datatype response_data =
    NoData
  | SseNoDataLine
  | SseUnparsable string
  | SseMessage rpc_message
  | OtherText
  | JsonObject rpc_message

text \<open>
  \<^verbatim>\<open>error.response.data\<close> of a rejected request: missing, or present with
  \<^verbatim>\<open>data.error?.message\<close> (\<open>None\<close> when undefined).
\<close>

datatype error_data = NoErrorData | ErrorData "string option"

text \<open>
  What \<^verbatim>\<open>axios.post\<close> does: it resolves on a 2xx status (header
  \<^verbatim>\<open>mcp-session-id\<close> and data), rejects with \<^verbatim>\<open>error.response\<close> on any other status,
  rejects with only \<^verbatim>\<open>error.request\<close> when no response came, or rejects with neither.
\<close>

datatype http_outcome =
    Resolved "string option" response_data
  | Rejected nat error_data
  | NoResponse
  | SetupFailure string

text \<open>
  The tool server is outside the gateway: any deterministic provider, answering a request
  in view of all requests it has received so far.
\<close>

type_synonym provider = "http_request list \<Rightarrow> http_request \<Rightarrow> http_outcome"

text \<open>
  The gateway's module state: \<^verbatim>\<open>let mcpSessionId = null\<close> (\<open>None\<close> stands for
  \<open>null\<close> and \<open>undefined\<close>), and the requests sent so far.
\<close>

record gateway =
  mcpSessionId :: "string option"
  sent :: "http_request list"

definition truthy_id :: "string option \<Rightarrow> bool" where
  "truthy_id s = (case s of None \<Rightarrow> False | Some x \<Rightarrow> x \<noteq> [])"

text \<open>Exceptions inside \<^verbatim>\<open>callMCPTool\<close>'s try block, by the properties the handler tests.\<close>

datatype js_error =
    AxiosError nat error_data
  | AxiosNoResponse
  | PlainError string

definition connect_failed :: js_error where
  "connect_failed = PlainError ''Failed to connect to MCP server''"

text \<open>
  \<^verbatim>\<open>initializeMCPSession\<close>: a truthy stored id is returned as it is.  Otherwise the
  handshake is sent; the session id of the response headers is stored at once, before
  the body is examined; every failure inside is rethrown as one plain error.
\<close>

definition initializeMCPSession :: "provider \<Rightarrow> gateway \<Rightarrow> (js_error + string option) \<times> gateway" where
  "initializeMCPSession p g =
     (if truthy_id (mcpSessionId g) then (Inr (mcpSessionId g), g)
      else
        let req = \<lparr>session_header = None, rpc = Initialize\<rparr>;
            g1 = g\<lparr>sent := sent g @ [req]\<rparr>
        in case p (sent g) req of
             Resolved hdr d \<Rightarrow>
               (let g2 = g1\<lparr>mcpSessionId := hdr\<rparr>
                in case d of
                     SseMessage m \<Rightarrow>
                       (if rpc_result m \<noteq> None then (Inr hdr, g2) else (Inl connect_failed, g2))
                   | _ \<Rightarrow> (Inl connect_failed, g2))
           | _ \<Rightarrow> (Inl connect_failed, g1))"

text \<open>Reading the JSON-RPC answer of a tool call (lines 113 to 151 of the client).\<close>

definition read_message :: "string \<Rightarrow> rpc_message \<Rightarrow> js_error + string" where
  "read_message invalid m =
     (case rpc_error m of
        Some msg \<Rightarrow>
          Inl (PlainError (case msg of Some t \<Rightarrow> (if t \<noteq> [] then t else ''MCP tool call failed'')
                                     | None \<Rightarrow> ''MCP tool call failed''))
      | None \<Rightarrow>
          (case rpc_result m of
             Some r \<Rightarrow> Inr r
           | None \<Rightarrow> Inl (PlainError invalid)))"

fun read_response :: "response_data \<Rightarrow> js_error + string" where
  "read_response NoData = Inl (PlainError ''Empty response from MCP server'')"
| "read_response (SseMessage m) = read_message ''Invalid SSE response format from MCP server'' m"
| "read_response SseNoDataLine = Inl (PlainError ''Could not parse SSE response data'')"
| "read_response (SseUnparsable e) = Inl (PlainError e)"
| "read_response OtherText = Inl (PlainError ''Invalid JSON response format from MCP server'')"
| "read_response (JsonObject m) = read_message ''Invalid JSON response format from MCP server'' m"

text \<open>The header bag of a tool call: the session id is attached when it is truthy.\<close>

definition call_request :: "gateway \<Rightarrow> string \<Rightarrow> arguments \<Rightarrow> http_request" where
  "call_request g toolName args =
     \<lparr>session_header = (if truthy_id (mcpSessionId g) then mcpSessionId g else None),
      rpc = ToolsCall toolName args\<rparr>"

text \<open>The try block of \<^verbatim>\<open>callMCPTool\<close>: ensure a session, send, read the answer.\<close>

definition attempt :: "provider \<Rightarrow> gateway \<Rightarrow> string \<Rightarrow> arguments \<Rightarrow> (js_error + string) \<times> gateway" where
  "attempt p g toolName args =
     (case initializeMCPSession p g of
        (Inl e, g1) \<Rightarrow> (Inl e, g1)
      | (Inr _, g1) \<Rightarrow>
          (let req = call_request g1 toolName args;
               g2 = g1\<lparr>sent := sent g1 @ [req]\<rparr>
           in case p (sent g1) req of
                Resolved hdr d \<Rightarrow> (read_response d, g2)
              | Rejected status ed \<Rightarrow> (Inl (AxiosError status ed), g2)
              | NoResponse \<Rightarrow> (Inl AxiosNoResponse, g2)
              | SetupFailure m \<Rightarrow> (Inl (PlainError m), g2)))"

text \<open>
  How a call of \<^verbatim>\<open>callMCPTool\<close> ends: it returns the result, it throws an error with a
  message, or the bound on the number of attempts that the model explores is used up.
\<close>

datatype call_outcome = Returned string | Threw string | OutOfFuel

text \<open>The messages of the errors the catch block throws when it does not retry.\<close>

fun rethrow :: "js_error \<Rightarrow> string" where
  "rethrow (AxiosError status NoErrorData) = ''Cannot read properties of undefined (reading 'error')''"
| "rethrow (AxiosError status (ErrorData None)) = ''MCP server error''"
| "rethrow (AxiosError status (ErrorData (Some m))) = (if m \<noteq> [] then m else ''MCP server error'')"
| "rethrow AxiosNoResponse = ''MCP server is not responding. Make sure it's running on port 3001.''"
| "rethrow (PlainError m) = ''Request error: '' @ m"

fun is_400 :: "js_error \<Rightarrow> bool" where
  "is_400 (AxiosError status _) = (status = 400)"
| "is_400 _ = False"

text \<open>
  \<^verbatim>\<open>callMCPTool\<close>.  On a rejection with status 400 the catch block clears the stored id
  and calls \<^verbatim>\<open>callMCPTool\<close> again.  The source has no counter for this recursion, so
  the model carries the number of attempts it may still make: \<open>OutOfFuel\<close> says that the
  call has not ended within that many attempts.
\<close>

fun callMCPTool :: "nat \<Rightarrow> provider \<Rightarrow> gateway \<Rightarrow> string \<Rightarrow> arguments \<Rightarrow> call_outcome \<times> gateway" where
  "callMCPTool 0 p g toolName args = (OutOfFuel, g)"
| "callMCPTool (Suc n) p g toolName args =
     (case attempt p g toolName args of
        (Inr r, g') \<Rightarrow> (Returned r, g')
      | (Inl e, g') \<Rightarrow>
          (if is_400 e then callMCPTool n p (g'\<lparr>mcpSessionId := None\<rparr>) toolName args
           else (Threw (rethrow e), g')))"

definition is_tools_call :: "http_request \<Rightarrow> bool" where
  "is_tools_call r = (case rpc r of Initialize \<Rightarrow> False | ToolsCall _ _ \<Rightarrow> True)"

definition is_initialize :: "http_request \<Rightarrow> bool" where
  "is_initialize r = (case rpc r of Initialize \<Rightarrow> True | ToolsCall _ _ \<Rightarrow> False)"

text \<open>
  A provider that completes every handshake with a session id and rejects every tool
  call with status 400, as a server does that has lost its sessions for good.
\<close>

definition rejecting_provider :: provider where
  "rejecting_provider hist req =
     (case rpc req of
        Initialize \<Rightarrow>
          Resolved (Some ''session'') (SseMessage \<lparr>rpc_error = None, rpc_result = Some ''{}''\<rparr>)
      | ToolsCall _ _ \<Rightarrow> Rejected 400 (ErrorData (Some ''Bad Request: No valid session ID provided'')))"

definition fresh_gateway :: gateway where
  "fresh_gateway = \<lparr>mcpSessionId = None, sent = []\<rparr>"

section \<open>Text helpers of the tool server\<close>

text \<open>
  Strings are byte strings; the source's non-ASCII characters are written as their UTF-8
  encoding.
\<close>

definition deg :: string where "deg = [CHR 0xC2, CHR 0xB0]"
definition thermometer :: string where
  "thermometer = [CHR 0xF0, CHR 0x9F, CHR 0x8C, CHR 0xA1, CHR 0xEF, CHR 0xB8, CHR 0x8F]"
definition cloud :: string where
  "cloud = [CHR 0xE2, CHR 0x98, CHR 0x81, CHR 0xEF, CHR 0xB8, CHR 0x8F]"
definition droplet :: string where "droplet = [CHR 0xF0, CHR 0x9F, CHR 0x92, CHR 0xA7]"
definition wind_face :: string where
  "wind_face = [CHR 0xF0, CHR 0x9F, CHR 0x8C, CHR 0xAC, CHR 0xEF, CHR 0xB8, CHR 0x8F]"
definition bar_chart :: string where "bar_chart = [CHR 0xF0, CHR 0x9F, CHR 0x93, CHR 0x8A]"
definition rain_cloud :: string where
  "rain_cloud = [CHR 0xF0, CHR 0x9F, CHR 0x8C, CHR 0xA7, CHR 0xEF, CHR 0xB8, CHR 0x8F]"
definition sun :: string where
  "sun = [CHR 0xE2, CHR 0x98, CHR 0x80, CHR 0xEF, CHR 0xB8, CHR 0x8F]"
definition moon :: string where "moon = [CHR 0xF0, CHR 0x9F, CHR 0x8C, CHR 0x99]"
definition clock_face :: string where "clock_face = [CHR 0xF0, CHR 0x9F, CHR 0x95, CHR 0x90]"
definition pushpin :: string where "pushpin = [CHR 0xF0, CHR 0x9F, CHR 0x93, CHR 0x8D]"
definition calendar :: string where "calendar = [CHR 0xF0, CHR 0x9F, CHR 0x93, CHR 0x85]"
definition dash_symbol :: string where "dash_symbol = [CHR 0xF0, CHR 0x9F, CHR 0x92, CHR 0xA8]"
definition people :: string where "people = [CHR 0xF0, CHR 0x9F, CHR 0x91, CHR 0xA5]"
definition mountain :: string where
  "mountain = [CHR 0xE2, CHR 0x9B, CHR 0xB0, CHR 0xEF, CHR 0xB8, CHR 0x8F]"
definition mantel_clock :: string where
  "mantel_clock = [CHR 0xF0, CHR 0x9F, CHR 0x95, CHR 0xB0, CHR 0xEF, CHR 0xB8, CHR 0x8F]"

text \<open>\<^verbatim>\<open>toLowerCase\<close> on the ASCII letters, and \<^verbatim>\<open>String.prototype.includes\<close>.\<close>

definition lower_char :: "char \<Rightarrow> char" where
  "lower_char c =
     (case map_of (zip ''ABCDEFGHIJKLMNOPQRSTUVWXYZ'' ''abcdefghijklmnopqrstuvwxyz'') c of
        Some l \<Rightarrow> l
      | None \<Rightarrow> c)"

definition toLowerCase :: "string \<Rightarrow> string" where
  "toLowerCase s = map lower_char s"

fun str_includes :: "string \<Rightarrow> string \<Rightarrow> bool" where
  "str_includes [] k = (k = [])"
| "str_includes (c # cs) k = (prefix k (c # cs) \<or> str_includes cs k)"

text \<open>\<^verbatim>\<open>n.toFixed(d)\<close> of an integral number.\<close>

definition toFixed :: "nat \<Rightarrow> int \<Rightarrow> string" where
  "toFixed d n = show_int n @ (if d = 0 then [] else CHR ''.'' # replicate d (CHR ''0''))"

text \<open>
  The receiver of \<^verbatim>\<open>v.toFixed(d)\<close>, for an argument \<open>v\<close>: the call is a type error
  unless \<open>v\<close> is a number.  \<open>var\<close> is the expression the engine names in its message.
\<close>

fun toFixed_receiver :: "string \<Rightarrow> jsval \<Rightarrow> string + int" where
  "toFixed_receiver var (JNum n) = Inr n"
| "toFixed_receiver var JUndefined = Inl ''Cannot read properties of undefined (reading 'toFixed')''"
| "toFixed_receiver var JNull = Inl ''Cannot read properties of null (reading 'toFixed')''"
| "toFixed_receiver var v = Inl (var @ ''.toFixed is not a function'')"


section \<open>The weather service\<close>

text \<open>
  A geocoding result, as \<^verbatim>\<open>geocodeCity\<close> maps it.  Fields the data source may leave
  out are optional (\<open>None\<close> is \<open>undefined\<close>).
\<close>

record geo_location =
  name :: string
  country :: "string option"
  admin1 :: "string option"
  latitude :: int
  longitude :: int
  timezone :: "string option"
  population :: "int option"
  elevation :: "int option"

text \<open>
  The parsed forecast that \<^verbatim>\<open>getWeatherForecast\<close> builds, with the fields that the
  handlers and renderers read.  \<open>location\<close> is the property the callers attach later.
\<close>

record current_weather =
  temperature :: int
  apparentTemperature :: int
  humidity :: int
  precipitation :: int
  weatherCode :: int
  cloudCover :: int
  pressure :: int
  windSpeed :: int
  windGusts :: int
  isDay :: bool

record daily_weather =
  date :: string
  dayWeatherCode :: int
  temperatureMax :: int
  temperatureMin :: int
  precipitationSum :: int
  precipitationProbability :: int
  windSpeedMax :: int

record weather_data =
  current :: current_weather
  daily :: "daily_weather list"
  location :: "geo_location option"

text \<open>
  The one \<^verbatim>\<open>Map\<close> of the service holds both kinds of payload, told apart by the prefix
  of the key only.
\<close>

datatype payload = Locations "geo_location list" | ForecastResult weather_data

record cache_entry =
  data :: payload
  timestamp :: int

text \<open>What is asked of the text-completion service: the prompt is a function of it.\<close>

datatype completion_request =
    AnalyzeCurrent weather_data jsval
  | AnalyzeForecast weather_data jsval
  | AnalyzeLocation weather_data jsval jsval jsval
  | AnswerQuestion jsval "weather_data option" jsval

datatype request =
    GeoSearch jsval jsval
  | ForecastQuery jsval jsval jsval
  | Completion completion_request

text \<open>
  Everything outside the process.  Each collaborator answers in view of the requests
  made so far (the last one is the request it answers), with a failure message or a
  value; \<open>latency\<close> is the time the answer takes.  \<open>claudeService\<close> tells whether the
  constructor could create the completion client (the field is \<open>null\<close> otherwise).
  The last three are the locale functions of the runtime.
\<close>

record world =
  geocoding_api :: "request list \<Rightarrow> string + geo_location list"
  forecast_api :: "request list \<Rightarrow> string + weather_data"
  messages_create :: "request list \<Rightarrow> string + string"
  latency :: "request list \<Rightarrow> int"
  claudeService :: bool
  weekday_short :: "string \<Rightarrow> string"
  month_day :: "string \<Rightarrow> string"
  toLocaleString :: "int \<Rightarrow> string"

text \<open>The service's state, the clock read by \<^verbatim>\<open>Date.now()\<close>, and the requests made.\<close>

record server =
  cache :: "string \<Rightarrow> cache_entry option"
  clock :: int
  requests :: "request list"

definition cacheTimeout :: int where
  "cacheTimeout = 10 * 60 * 1000"

text \<open>An awaited request: it is recorded and the clock moves on by its latency.\<close>

definition await :: "world \<Rightarrow> server \<Rightarrow> request \<Rightarrow> server" where
  "await w s r = s\<lparr>clock := clock s + latency w (requests s @ [r]), requests := requests s @ [r]\<rparr>"

text \<open>
  The cache test both fetchers start with: the entry under the key, if there is one and
  \<^verbatim>\<open>Date.now() - cached.timestamp < ttl\<close>.
\<close>

definition cached :: "server \<Rightarrow> string \<Rightarrow> int \<Rightarrow> payload option" where
  "cached s cacheKey ttl =
     (case cache s cacheKey of
        None \<Rightarrow> None
      | Some e \<Rightarrow> if clock s - timestamp e < ttl then Some (data e) else None)"

definition cache_set :: "server \<Rightarrow> string \<Rightarrow> payload \<Rightarrow> server" where
  "cache_set s cacheKey v = s\<lparr>cache := (cache s)(cacheKey \<mapsto> \<lparr>data = v, timestamp = clock s\<rparr>)\<rparr>"

definition geocode_key :: "jsval \<Rightarrow> jsval \<Rightarrow> string" where
  "geocode_key city cnt = ''geocode_'' @ to_str city @ ''_'' @ to_str cnt"

definition forecast_key :: "jsval \<Rightarrow> jsval \<Rightarrow> jsval \<Rightarrow> string" where
  "forecast_key lat lon days = ''forecast_'' @ to_str lat @ ''_'' @ to_str lon @ ''_'' @ to_str days"

text \<open>\<^verbatim>\<open>geocodeCity(city, count = 1)\<close>.\<close>

definition geocodeCity :: "world \<Rightarrow> server \<Rightarrow> jsval \<Rightarrow> jsval \<Rightarrow> (string + payload) \<times> server" where
  "geocodeCity w s city cnt0 =
     (let cnt = (if cnt0 = JUndefined then JNum 1 else cnt0);
          cacheKey = geocode_key city cnt
      in case cached s cacheKey (cacheTimeout * 6) of
           Some d \<Rightarrow> (Inr d, s)
         | None \<Rightarrow>
             (let s1 = await w s (GeoSearch city cnt)
              in case geocoding_api w (requests s1) of
                   Inl m \<Rightarrow> (Inl (''Failed to geocode '' @ to_str city @ '': '' @ m), s1)
                 | Inr locs \<Rightarrow> (Inr (Locations locs), cache_set s1 cacheKey (Locations locs))))"

text \<open>\<^verbatim>\<open>getWeatherForecast(latitude, longitude, days = 7)\<close>.\<close>

definition getWeatherForecast ::
  "world \<Rightarrow> server \<Rightarrow> jsval \<Rightarrow> jsval \<Rightarrow> jsval \<Rightarrow> (string + payload) \<times> server" where
  "getWeatherForecast w s lat lon days0 =
     (let days = (if days0 = JUndefined then JNum 7 else days0);
          cacheKey = forecast_key lat lon days
      in case cached s cacheKey cacheTimeout of
           Some d \<Rightarrow> (Inr d, s)
         | None \<Rightarrow>
             (let s1 = await w s (ForecastQuery lat lon days)
              in case forecast_api w (requests s1) of
                   Inl m \<Rightarrow>
                     (Inl (''Failed to get forecast for coordinates '' @ to_str lat @ '', ''
                           @ to_str lon @ '': '' @ m), s1)
                 | Inr r \<Rightarrow>
                     (let result = ForecastResult (r\<lparr>location := None\<rparr>)
                      in (Inr result, cache_set s1 cacheKey result))))"

text \<open>
  \<^verbatim>\<open>weatherData.location = ...\<close> writes to the object that \<^verbatim>\<open>getWeatherForecast\<close>
  returned, which is the object the cache holds under the key.
\<close>

definition attach_location :: "server \<Rightarrow> string \<Rightarrow> geo_location \<Rightarrow> server" where
  "attach_location s cacheKey loc =
     (case cache s cacheKey of
        None \<Rightarrow> s
      | Some e \<Rightarrow>
          (case data e of
             ForecastResult wd \<Rightarrow>
               s\<lparr>cache := (cache s)(cacheKey \<mapsto> e\<lparr>data := ForecastResult (wd\<lparr>location := Some loc\<rparr>)\<rparr>)\<rparr>
           | Locations ls \<Rightarrow> s))"

text \<open>\<^verbatim>\<open>getWeatherDescription\<close>, the same table in the weather and the completion service.\<close>

definition weatherCodes :: "(int \<times> string) list" where
  "weatherCodes =
     [(0, ''Clear sky''), (1, ''Mainly clear''), (2, ''Partly cloudy''), (3, ''Overcast''),
      (45, ''Fog''), (48, ''Depositing rime fog''),
      (51, ''Light drizzle''), (53, ''Moderate drizzle''), (55, ''Dense drizzle''),
      (56, ''Light freezing drizzle''), (57, ''Dense freezing drizzle''),
      (61, ''Slight rain''), (63, ''Moderate rain''), (65, ''Heavy rain''),
      (66, ''Light freezing rain''), (67, ''Heavy freezing rain''),
      (71, ''Slight snow fall''), (73, ''Moderate snow fall''), (75, ''Heavy snow fall''),
      (77, ''Snow grains''),
      (80, ''Slight rain showers''), (81, ''Moderate rain showers''), (82, ''Violent rain showers''),
      (85, ''Slight snow showers''), (86, ''Heavy snow showers''),
      (95, ''Thunderstorm''), (96, ''Thunderstorm with slight hail''),
      (99, ''Thunderstorm with heavy hail'')]"

definition getWeatherDescription :: "int \<Rightarrow> string" where
  "getWeatherDescription code =
     (case map_of weatherCodes code of
        Some d \<Rightarrow> d
      | None \<Rightarrow> ''Weather code '' @ show_int code)"

definition truthy_str :: "string option \<Rightarrow> bool" where
  "truthy_str v = (case v of None \<Rightarrow> False | Some t \<Rightarrow> t \<noteq> [])"

definition truthy_num :: "int option \<Rightarrow> bool" where
  "truthy_num v = (case v of None \<Rightarrow> False | Some n \<Rightarrow> n \<noteq> 0)"

definition opt_str :: "string option \<Rightarrow> string" where
  "opt_str v = (case v of None \<Rightarrow> ''undefined'' | Some t \<Rightarrow> t)"

definition opt_num :: "int option \<Rightarrow> string" where
  "opt_num v = (case v of None \<Rightarrow> ''undefined'' | Some n \<Rightarrow> show_int n)"

text \<open>The heading both renderers start with, after their own title.\<close>

definition place_line :: "geo_location \<Rightarrow> string" where
  "place_line loc =
     name loc @ (if truthy_str (admin1 loc) then '', '' @ opt_str (admin1 loc) else [])
     @ '', '' @ opt_str (country loc) @ ''**\<newline>\<newline>''"

text \<open>
  What the chat formatters return, and what \<^verbatim>\<open>getWeatherForChat\<close> returns: that, or the
  object \<^verbatim>\<open>{error: true, message}\<close>.
\<close>

record formatted =
  response :: string
  chat_data :: weather_data
  chat_type :: string

datatype chat_result = ChatError string | ChatOk formatted

definition formatCurrentWeatherForChat :: "weather_data \<Rightarrow> string + formatted" where
  "formatCurrentWeatherForChat wd =
     (case location wd of
        None \<Rightarrow> Inl ''Cannot read properties of undefined (reading 'name')''
      | Some loc \<Rightarrow>
          (let c = current wd;
               text =
                 ''**Current Weather in '' @ place_line loc
                 @ thermometer @ '' **Temperature:** '' @ show_int (temperature c) @ deg
                 @ ''C (feels like '' @ show_int (apparentTemperature c) @ deg @ ''C)\<newline>''
                 @ cloud @ '' **Condition:** '' @ getWeatherDescription (weatherCode c) @ ''\<newline>''
                 @ droplet @ '' **Humidity:** '' @ show_int (humidity c) @ ''%\<newline>''
                 @ wind_face @ '' **Wind:** '' @ show_int (windSpeed c) @ '' km/h''
                 @ (if windGusts c > 0
                    then '' (gusts up to '' @ show_int (windGusts c) @ '' km/h)'' else [])
                 @ ''\<newline>''
                 @ bar_chart @ '' **Pressure:** '' @ show_int (pressure c) @ '' hPa\<newline>''
                 @ cloud @ '' **Cloud Cover:** '' @ show_int (cloudCover c) @ ''%\<newline>''
                 @ (if precipitation c > 0
                    then rain_cloud @ '' **Precipitation:** '' @ show_int (precipitation c)
                         @ '' mm\<newline>''
                    else [])
                 @ clock_face @ '' **Time of Day:** ''
                 @ (if isDay c then sun @ '' Day'' else moon @ '' Night'') @ ''\<newline>''
                 @ ''\<newline>'' @ pushpin @ '' **Location:** '' @ toFixed 2 (latitude loc) @ deg
                 @ '', '' @ toFixed 2 (longitude loc) @ deg
                 @ (if truthy_num (elevation loc)
                    then '' ('' @ opt_num (elevation loc) @ ''m elevation)'' else [])
           in Inr \<lparr>response = text, chat_data = wd, chat_type = ''current''\<rparr>))"

text \<open>One day of the forecast; \<open>i\<close> is its index in the list.\<close>

definition forecast_day :: "world \<Rightarrow> nat \<times> daily_weather \<Rightarrow> string" where
  "forecast_day w p =
     (case p of (i, d) \<Rightarrow>
        calendar @ '' **'' @ (if i = 0 then ''Today'' else weekday_short w (date d)) @ '', ''
        @ month_day w (date d) @ ''**\<newline>''
        @ ''   '' @ thermometer @ '' '' @ show_int (temperatureMin d) @ deg @ '' - ''
        @ show_int (temperatureMax d) @ deg @ ''C\<newline>''
        @ ''   '' @ cloud @ '' '' @ getWeatherDescription (dayWeatherCode d) @ ''\<newline>''
        @ (if precipitationSum d > 0
           then ''   '' @ rain_cloud @ '' '' @ show_int (precipitationSum d) @ ''mm rain''
                @ (if precipitationProbability d > 0
                   then '' ('' @ show_int (precipitationProbability d) @ ''% chance)'' else [])
                @ ''\<newline>''
           else [])
        @ (if windSpeedMax d > 10
           then ''   '' @ dash_symbol @ '' Wind up to '' @ show_int (windSpeedMax d) @ '' km/h\<newline>''
           else [])
        @ ''\<newline>'')"

definition formatForecastForChat :: "world \<Rightarrow> weather_data \<Rightarrow> string + formatted" where
  "formatForecastForChat w wd =
     (case location wd of
        None \<Rightarrow> Inl ''Cannot read properties of undefined (reading 'name')''
      | Some loc \<Rightarrow>
          (let days = take 7 (daily wd);
               text =
                 ''**7-Day Weather Forecast for '' @ place_line loc
                 @ concat (map (forecast_day w) (zip [0 ..< length days] days))
           in Inr \<lparr>response = text, chat_data = wd, chat_type = ''forecast''\<rparr>))"

text \<open>
  \<^verbatim>\<open>getWeatherForChat(city, includeForecast = false)\<close>.  Its try block catches every
  exception, so it always returns.  The branches for a payload of the wrong kind are what
  the engine does when it reads a property of \<open>undefined\<close>; the key prefixes keep them
  from being reached.
\<close>

definition getWeatherForChat :: "world \<Rightarrow> server \<Rightarrow> jsval \<Rightarrow> bool \<Rightarrow> chat_result \<times> server" where
  "getWeatherForChat w s city includeForecast =
     (case geocodeCity w s city (JNum 1) of
        (Inl e, s1) \<Rightarrow> (ChatError e, s1)
      | (Inr (ForecastResult x), s1) \<Rightarrow>
          (ChatError ''Cannot read properties of undefined (reading 'latitude')'', s1)
      | (Inr (Locations []), s1) \<Rightarrow>
          (ChatError (''Could not find location for \"'' @ to_str city
                      @ ''\". Please check the city name and try again.''), s1)
      | (Inr (Locations (loc # rest)), s1) \<Rightarrow>
          (let lat = JNum (latitude loc); lon = JNum (longitude loc);
               days = JNum (if includeForecast then 7 else 1)
           in case getWeatherForecast w s1 lat lon days of
                (Inl e, s2) \<Rightarrow> (ChatError e, s2)
              | (Inr p, s2) \<Rightarrow>
                  (let s3 = attach_location s2 (forecast_key lat lon days) loc
                   in case p of
                        Locations ls \<Rightarrow>
                          (ChatError (if includeForecast
                             then ''Cannot read properties of undefined (reading 'slice')''
                             else ''Cannot read properties of undefined (reading 'weatherCode')''), s3)
                      | ForecastResult wd0 \<Rightarrow>
                          (case (if includeForecast
                                 then formatForecastForChat w (wd0\<lparr>location := Some loc\<rparr>)
                                 else formatCurrentWeatherForChat (wd0\<lparr>location := Some loc\<rparr>)) of
                             Inl e \<Rightarrow> (ChatError e, s3)
                           | Inr r \<Rightarrow> (ChatOk r, s3)))))"


section \<open>The completion service\<close>

text \<open>
  The template answers used when the completion request fails.
\<close>

definition fallbackCurrentWeatherResponse :: "weather_data \<Rightarrow> string \<Rightarrow> string" where
  "fallbackCurrentWeatherResponse wd city =
     (let temp = temperature (current wd);
          condition = getWeatherDescription (weatherCode (current wd));
          feelsLike = apparentTemperature (current wd)
      in ''The current weather in '' @ city @ '' is '' @ show_int temp @ deg @ ''C with ''
         @ toLowerCase condition
         @ (if \<bar>temp - feelsLike\<bar> > 3
            then '', though it feels like '' @ show_int feelsLike @ deg @ ''C'' else [])
         @ ''. ''
         @ (if precipitation (current wd) > 0
            then ''It's currently raining, so you'll want an umbrella. '' else [])
         @ (if temp < 10 then ''It's quite chilly - dress warmly!''
            else if temp > 25 then ''It's quite warm - perfect for outdoor activities!''
            else ''Pleasant weather overall!''))"

definition day_range :: "daily_weather \<Rightarrow> string" where
  "day_range d = show_int (temperatureMin d) @ ''-'' @ show_int (temperatureMax d) @ deg @ ''C''"

text \<open>\<^verbatim>\<open>fallbackForecastResponse\<close> reads \<^verbatim>\<open>daily[0]\<close>: a type error on an empty list.\<close>

definition fallbackForecastResponse :: "weather_data \<Rightarrow> string \<Rightarrow> string + string" where
  "fallbackForecastResponse wd city =
     (case daily wd of
        [] \<Rightarrow> Inl ''Cannot read properties of undefined (reading 'temperatureMin')''
      | today # later \<Rightarrow>
          (let rainDays = length (filter (\<lambda>d. precipitationSum d > 0) (take 7 (daily wd)))
           in Inr (''The forecast for '' @ city @ '' shows '' @ day_range today @ '' today with ''
                   @ toLowerCase (getWeatherDescription (dayWeatherCode today))
                   @ (case later of
                        [] \<Rightarrow> []
                      | tomorrow # rest \<Rightarrow>
                          '', and '' @ day_range tomorrow @ '' tomorrow with ''
                          @ toLowerCase (getWeatherDescription (dayWeatherCode tomorrow)))
                   @ (if rainDays > 3 then ''. Expect several rainy days this week.''
                      else if rainDays > 0 then ''. Some rain is expected during the week.''
                      else ''. Looks like a dry week ahead!''))))"

text \<open>
  The four methods of the completion service.  Each sends its prompt inside a try block;
  the catch block answers with a template.  The result is \<open>Inl\<close> when the method itself
  throws, which only the forecast template can make it do.
\<close>

definition analyzeCurrentWeather ::
  "world \<Rightarrow> server \<Rightarrow> weather_data \<Rightarrow> jsval \<Rightarrow> (string + string) \<times> server" where
  "analyzeCurrentWeather w s wd city =
     (let s1 = await w s (Completion (AnalyzeCurrent wd city))
      in case messages_create w (requests s1) of
           Inr t \<Rightarrow> (Inr t, s1)
         | Inl e \<Rightarrow> (Inr (fallbackCurrentWeatherResponse wd (to_str city)), s1))"

definition analyzeWeatherForecast ::
  "world \<Rightarrow> server \<Rightarrow> weather_data \<Rightarrow> jsval \<Rightarrow> (string + string) \<times> server" where
  "analyzeWeatherForecast w s wd city =
     (let s1 = await w s (Completion (AnalyzeForecast wd city))
      in case messages_create w (requests s1) of
           Inr t \<Rightarrow> (Inr t, s1)
         | Inl e \<Rightarrow> (fallbackForecastResponse wd (to_str city), s1))"

text \<open>
  \<^verbatim>\<open>analyzeLocationWeather(weatherData, latitude, longitude, days = 1)\<close> is called with
  numbers for the coordinates only (its caller has formatted them before).
\<close>

definition analyzeLocationWeather ::
  "world \<Rightarrow> server \<Rightarrow> weather_data \<Rightarrow> int \<Rightarrow> int \<Rightarrow> jsval \<Rightarrow> (string + string) \<times> server" where
  "analyzeLocationWeather w s wd lat lon days0 =
     (let days = (if days0 = JUndefined then JNum 1 else days0);
          place = ''coordinates '' @ toFixed 2 lat @ '', '' @ toFixed 2 lon;
          s1 = await w s (Completion (AnalyzeLocation wd (JNum lat) (JNum lon) days))
      in case messages_create w (requests s1) of
           Inr t \<Rightarrow> (Inr t, s1)
         | Inl e \<Rightarrow>
             (if days = JNum 1 then (Inr (fallbackCurrentWeatherResponse wd place), s1)
              else (fallbackForecastResponse wd place, s1)))"

definition answerWeatherQuestion ::
  "world \<Rightarrow> server \<Rightarrow> jsval \<Rightarrow> weather_data option \<Rightarrow> jsval \<Rightarrow> (string + string) \<times> server" where
  "answerWeatherQuestion w s question wd city =
     (let s1 = await w s (Completion (AnswerQuestion question wd city))
      in case messages_create w (requests s1) of
           Inr t \<Rightarrow> (Inr t, s1)
         | Inl e \<Rightarrow>
             (Inr (''I'd be happy to help with weather questions! Could you specify a location ''
                   @ ''so I can provide accurate information?''), s1))"

section \<open>The tool dispatcher\<close>

record content_block =
  block_type :: string
  block_text :: string

text \<open>
  A tool result.  Every field but \<open>content\<close> is optional in the source's object
  literals: \<open>None\<close> is a key that is not there (or \<open>null\<close>).
\<close>

record tool_result =
  content :: "content_block list"
  isError :: "bool option"
  weatherData :: "weather_data option"
  result_type :: "string option"
  aiAnalyzed :: "bool option"
  locations :: "geo_location list option"
  result_count :: "nat option"

definition text_result :: "string \<Rightarrow> tool_result" where
  "text_result t =
     \<lparr>content = [\<lparr>block_type = ''text'', block_text = t\<rparr>], isError = None, weatherData = None,
      result_type = None, aiAnalyzed = None, locations = None, result_count = None\<rparr>"

definition weather_result :: "string \<Rightarrow> weather_data \<Rightarrow> string \<Rightarrow> bool \<Rightarrow> tool_result" where
  "weather_result t wd ty ai =
     (text_result t)\<lparr>weatherData := Some wd, result_type := Some ty, aiAnalyzed := Some ai\<rparr>"

text \<open>A handler returns a result or throws an error with a message.\<close>

type_synonym handled = "(string + tool_result) \<times> server"

definition handleGetWeather :: "world \<Rightarrow> server \<Rightarrow> jsval \<Rightarrow> handled" where
  "handleGetWeather w s city =
     (case getWeatherForChat w s city False of
        (ChatError m, s1) \<Rightarrow> (Inl m, s1)
      | (ChatOk r, s1) \<Rightarrow>
          (if claudeService w
           then (case analyzeCurrentWeather w s1 (chat_data r) city of
                   (Inr t, s2) \<Rightarrow> (Inr (weather_result t (chat_data r) (chat_type r) True), s2)
                 | (Inl e, s2) \<Rightarrow>
                     (Inr (weather_result (response r) (chat_data r) (chat_type r) True), s2))
           else (Inr (weather_result (response r) (chat_data r) (chat_type r) False), s1)))"

text \<open>\<^verbatim>\<open>handleGetForecast(city, days = 7)\<close> does not read \<open>days\<close>.\<close>

definition handleGetForecast :: "world \<Rightarrow> server \<Rightarrow> jsval \<Rightarrow> jsval \<Rightarrow> handled" where
  "handleGetForecast w s city days =
     (case getWeatherForChat w s city True of
        (ChatError m, s1) \<Rightarrow> (Inl m, s1)
      | (ChatOk r, s1) \<Rightarrow>
          (if claudeService w
           then (case analyzeWeatherForecast w s1 (chat_data r) city of
                   (Inr t, s2) \<Rightarrow> (Inr (weather_result t (chat_data r) (chat_type r) True), s2)
                 | (Inl e, s2) \<Rightarrow>
                     (Inr (weather_result (response r) (chat_data r) (chat_type r) True), s2))
           else (Inr (weather_result (response r) (chat_data r) (chat_type r) False), s1)))"

text \<open>The basic formatting that \<^verbatim>\<open>handleGetWeatherByCoords\<close> falls back to.\<close>

definition basic_format :: "world \<Rightarrow> weather_data \<Rightarrow> jsval \<Rightarrow> string + string" where
  "basic_format w wd days =
     (case (if days = JNum 1 then formatCurrentWeatherForChat wd else formatForecastForChat w wd) of
        Inl e \<Rightarrow> Inl e
      | Inr r \<Rightarrow> Inr (response r))"

definition coords_type :: "jsval \<Rightarrow> string" where
  "coords_type days = (if days = JNum 1 then ''current'' else ''forecast'')"

text \<open>
  \<^verbatim>\<open>handleGetWeatherByCoords(latitude, longitude, days = 1)\<close>.  The forecast is fetched
  first; the coordinates are formatted after it, which throws unless both are numbers.
\<close>

definition handleGetWeatherByCoords :: "world \<Rightarrow> server \<Rightarrow> jsval \<Rightarrow> jsval \<Rightarrow> jsval \<Rightarrow> handled" where
  "handleGetWeatherByCoords w s lat lon days0 =
     (let days = (if days0 = JUndefined then JNum 1 else days0)
      in case getWeatherForecast w s lat lon days of
           (Inl e, s1) \<Rightarrow> (Inl e, s1)
         | (Inr p, s1) \<Rightarrow>
             (case toFixed_receiver ''latitude'' lat of
                Inl e \<Rightarrow> (Inl e, s1)
              | Inr la \<Rightarrow>
             (case toFixed_receiver ''longitude'' lon of
                Inl e \<Rightarrow> (Inl e, s1)
              | Inr lo \<Rightarrow>
                  (let loc = \<lparr>name = ''Location ('' @ toFixed 2 la @ '', '' @ toFixed 2 lo @ '')'',
                              country = None, admin1 = None, latitude = la, longitude = lo,
                              timezone = None, population = None, elevation = None\<rparr>;
                       s2 = attach_location s1 (forecast_key lat lon days) loc
                   in case p of
                        Locations ls \<Rightarrow>
                          (Inl (if days = JNum 1
                             then ''Cannot read properties of undefined (reading 'weatherCode')''
                             else ''Cannot read properties of undefined (reading 'slice')''), s2)
                      | ForecastResult wd0 \<Rightarrow>
                          (let wd = wd0\<lparr>location := Some loc\<rparr>
                           in if claudeService w
                              then (case analyzeLocationWeather w s2 wd la lo days of
                                      (Inr t, s3) \<Rightarrow>
                                        (Inr (weather_result t wd (coords_type days) True), s3)
                                    | (Inl e, s3) \<Rightarrow>
                                        (case basic_format w wd days of
                                           Inl e2 \<Rightarrow> (Inl e2, s3)
                                         | Inr t \<Rightarrow>
                                             (Inr (weather_result t wd (coords_type days) True), s3)))
                              else (case basic_format w wd days of
                                      Inl e2 \<Rightarrow> (Inl e2, s2)
                                    | Inr t \<Rightarrow>
                                        (Inr (weather_result t wd (coords_type days) False), s2)))))))"

definition apology :: string where
  "apology = ''I'd be happy to help with weather questions! However, AI analysis is not available ''
             @ ''right now. Try asking about specific weather data for a city.''"

definition trouble :: string where
  "trouble = ''I'm having trouble analyzing that weather question right now. Could you try asking ''
             @ ''about specific weather data for a city?''"

text \<open>\<^verbatim>\<open>handleWeatherQuestion(question, city = null)\<close>.\<close>

definition handleWeatherQuestion :: "world \<Rightarrow> server \<Rightarrow> jsval \<Rightarrow> jsval \<Rightarrow> handled" where
  "handleWeatherQuestion w s question city0 =
     (let city = (if city0 = JUndefined then JNull else city0)
      in if \<not> claudeService w then (Inr ((text_result apology)\<lparr>aiAnalyzed := Some False\<rparr>), s)
         else
           (let (wd, s1) =
                  (if truthy city
                   then (case getWeatherForChat w s city False of
                           (ChatOk r, s') \<Rightarrow> (Some (chat_data r), s')
                         | (ChatError m, s') \<Rightarrow> (None, s'))
                   else (None, s))
            in case answerWeatherQuestion w s1 question wd city of
                 (Inr t, s2) \<Rightarrow>
                   (Inr ((text_result t)\<lparr>weatherData := wd, result_type := Some ''question'',
                                          aiAnalyzed := Some True\<rparr>), s2)
               | (Inl e, s2) \<Rightarrow>
                   (Inr ((text_result trouble)\<lparr>aiAnalyzed := Some False, isError := Some True\<rparr>),
                    s2)))"

text \<open>One entry of the list that \<^verbatim>\<open>handleGeocodeCity\<close> prints; \<open>i\<close> is its index.\<close>

definition geocode_entry :: "world \<Rightarrow> nat \<times> geo_location \<Rightarrow> string" where
  "geocode_entry w p =
     (case p of (i, loc) \<Rightarrow>
        show_nat (i + 1) @ ''. **'' @ name loc
        @ (if truthy_str (admin1 loc) then '', '' @ opt_str (admin1 loc) else [])
        @ '', '' @ opt_str (country loc) @ ''**\<newline>''
        @ ''   '' @ pushpin @ '' '' @ toFixed 4 (latitude loc) @ '', '' @ toFixed 4 (longitude loc)
        @ ''\<newline>''
        @ (case population loc of
             Some n \<Rightarrow>
               (if n \<noteq> 0 then ''   '' @ people @ '' Population: '' @ toLocaleString w n @ ''\<newline>''
                else [])
           | None \<Rightarrow> [])
        @ (if truthy_num (elevation loc)
           then ''   '' @ mountain @ '' Elevation: '' @ opt_num (elevation loc) @ ''m\<newline>'' else [])
        @ ''   '' @ mantel_clock @ '' Timezone: '' @ opt_str (timezone loc) @ ''\<newline>\<newline>'')"

text \<open>\<^verbatim>\<open>handleGeocodeCity(city, count = 1)\<close>.\<close>

definition handleGeocodeCity :: "world \<Rightarrow> server \<Rightarrow> jsval \<Rightarrow> jsval \<Rightarrow> handled" where
  "handleGeocodeCity w s city cnt0 =
     (let cnt = (if cnt0 = JUndefined then JNum 1 else cnt0)
      in case geocodeCity w s city cnt of
           (Inl e, s1) \<Rightarrow> (Inl e, s1)
         | (Inr (ForecastResult x), s1) \<Rightarrow> (Inl ''locations.forEach is not a function'', s1)
         | (Inr (Locations locs), s1) \<Rightarrow>
             (Inr ((text_result
                      (''**Geocoding results for \"'' @ to_str city @ ''\":**\<newline>\<newline>''
                       @ (if locs = [] then ''No locations found.''
                          else concat (map (geocode_entry w) (zip [0 ..< length locs] locs)))))
                   \<lparr>locations := Some locs, result_count := Some (length locs)\<rparr>), s1))"

text \<open>
  \<^verbatim>\<open>listTools\<close>: the tools the server advertises, each with the \<^verbatim>\<open>required\<close> list of
  its input schema.
\<close>

definition listTools_required :: "(string \<times> string list) list" where
  "listTools_required =
     [(''get_weather'', [''city'']),
      (''get_forecast'', [''city'']),
      (''get_weather_by_coords'', [''latitude'', ''longitude'']),
      (''geocode_city'', [''city'']),
      (''ask_weather_question'', [''question''])]"

text \<open>
  \<^verbatim>\<open>WeatherMCPServer.callTool\<close>: the switch over the tool name inside the try block,
  and the catch block that turns a thrown error into an error result.  The tools/call
  handler of the SDK-based server has the same text.
\<close>

definition tool_names :: "string list" where
  "tool_names = [''get_weather'', ''get_forecast'', ''get_weather_by_coords'', ''geocode_city'',
                 ''ask_weather_question'']"

definition dispatch :: "world \<Rightarrow> server \<Rightarrow> string \<Rightarrow> arguments \<Rightarrow> handled" where
  "dispatch w s toolName args =
     (if toolName = ''get_weather'' then handleGetWeather w s (arg args ''city'')
      else if toolName = ''get_forecast''
        then handleGetForecast w s (arg args ''city'') (arg args ''days'')
      else if toolName = ''get_weather_by_coords''
        then handleGetWeatherByCoords w s (arg args ''latitude'') (arg args ''longitude'')
               (arg args ''days'')
      else if toolName = ''geocode_city''
        then handleGeocodeCity w s (arg args ''city'') (arg args ''count'')
      else if toolName = ''ask_weather_question''
        then handleWeatherQuestion w s (arg args ''question'') (arg args ''city'')
      else (Inl (''Unknown tool: '' @ toolName), s))"

definition error_result :: "string \<Rightarrow> string \<Rightarrow> tool_result" where
  "error_result toolName message =
     (text_result (''Error calling tool '' @ toolName @ '': '' @ message))\<lparr>isError := Some True\<rparr>"

definition callTool :: "world \<Rightarrow> server \<Rightarrow> string \<Rightarrow> arguments \<Rightarrow> tool_result \<times> server" where
  "callTool w s toolName args =
     (case dispatch w s toolName args of
        (Inr r, s') \<Rightarrow> (r, s')
      | (Inl message, s') \<Rightarrow> (error_result toolName message, s'))"


section \<open>The SDK-based server and its Fahrenheit tools\<close>

text \<open>
  The handlers of \<^verbatim>\<open>RealMCPWeatherServer\<close> call
  \<^verbatim>\<open>this.weatherService.getWeatherForChat(city, false, useFahrenheit)\<close> with three
  arguments.  The method declares two parameters and does not read \<^verbatim>\<open>arguments\<close>, so
  the engine drops the third.
\<close>

definition getWeatherForChat_3 ::
  "world \<Rightarrow> server \<Rightarrow> jsval \<Rightarrow> bool \<Rightarrow> bool \<Rightarrow> chat_result \<times> server" where
  "getWeatherForChat_3 w s city includeForecast useFahrenheit =
     getWeatherForChat w s city includeForecast"

text \<open>
  \<^verbatim>\<open>handleGetWeather(city, useFahrenheit = false)\<close> of that server.  Nothing inside its
  outer try block throws, so its catch block is not a branch of the model.
\<close>

definition RealMCP_handleGetWeather :: "world \<Rightarrow> server \<Rightarrow> jsval \<Rightarrow> bool \<Rightarrow> tool_result \<times> server" where
  "RealMCP_handleGetWeather w s city useFahrenheit =
     (case getWeatherForChat_3 w s city False useFahrenheit of
        (ChatError m, s1) \<Rightarrow>
          ((text_result (''Error getting weather for '' @ to_str city @ '': '' @ m))
             \<lparr>isError := Some True\<rparr>, s1)
      | (ChatOk r, s1) \<Rightarrow>
          (if claudeService w
           then (case analyzeCurrentWeather w s1 (chat_data r) city of
                   (Inr t, s2) \<Rightarrow> (text_result t, s2)
                 | (Inl e, s2) \<Rightarrow> (text_result (response r), s2))
           else (text_result (response r), s1)))"

definition RealMCP_handleGetForecast ::
  "world \<Rightarrow> server \<Rightarrow> jsval \<Rightarrow> jsval \<Rightarrow> bool \<Rightarrow> tool_result \<times> server" where
  "RealMCP_handleGetForecast w s city days useFahrenheit =
     (case getWeatherForChat_3 w s city True useFahrenheit of
        (ChatError m, s1) \<Rightarrow>
          ((text_result (''Error getting forecast for '' @ to_str city @ '': '' @ m))
             \<lparr>isError := Some True\<rparr>, s1)
      | (ChatOk r, s1) \<Rightarrow>
          (if claudeService w
           then (case analyzeWeatherForecast w s1 (chat_data r) city of
                   (Inr t, s2) \<Rightarrow> (text_result t, s2)
                 | (Inl e, s2) \<Rightarrow> (text_result (response r), s2))
           else (text_result (response r), s1)))"

text \<open>The callbacks registered for four of the tools in \<^verbatim>\<open>setupTools\<close>.\<close>

definition tool_get_weather :: "world \<Rightarrow> server \<Rightarrow> jsval \<Rightarrow> tool_result \<times> server" where
  "tool_get_weather w s city = RealMCP_handleGetWeather w s city False"

definition tool_get_weather_fahrenheit :: "world \<Rightarrow> server \<Rightarrow> jsval \<Rightarrow> tool_result \<times> server" where
  "tool_get_weather_fahrenheit w s city = RealMCP_handleGetWeather w s city True"

definition tool_get_forecast :: "world \<Rightarrow> server \<Rightarrow> jsval \<Rightarrow> jsval \<Rightarrow> tool_result \<times> server" where
  "tool_get_forecast w s city days = RealMCP_handleGetForecast w s city days False"

definition tool_get_forecast_fahrenheit ::
  "world \<Rightarrow> server \<Rightarrow> jsval \<Rightarrow> jsval \<Rightarrow> tool_result \<times> server" where
  "tool_get_forecast_fahrenheit w s city days = RealMCP_handleGetForecast w s city days True"

definition fahrenheitKeywords :: "string list" where
  "fahrenheitKeywords =
     [''fahrenheit'', ''farenheit'', ''f'', deg @ ''f'', ''degrees fahrenheit'',
      ''in fahrenheit'', ''convert to fahrenheit'', ''show fahrenheit'',
      ''f instead of c'', ''fahrenheit instead of celsius'',
      ''in f'', ''in f instead of c'', ''f instead of celsius'',
      ''fahrenheit instead of c'', ''f instead of c'']"

definition detectFahrenheitPreference :: "string \<Rightarrow> bool" where
  "detectFahrenheitPreference userMessage =
     (if userMessage = [] then False
      else list_ex (str_includes (toLowerCase userMessage)) fahrenheitKeywords)"

section \<open>Sample collaborators\<close>

definition paris :: geo_location where
  "paris = \<lparr>name = ''Paris'', country = Some ''France'', admin1 = Some ''Ile-de-France'',
            latitude = 49, longitude = 2, timezone = Some ''Europe/Paris'',
            population = Some 2138551, elevation = Some 42\<rparr>"

definition mild_day :: weather_data where
  "mild_day =
     \<lparr>current = \<lparr>temperature = 20, apparentTemperature = 19, humidity = 60, precipitation = 0,
                 weatherCode = 2, cloudCover = 40, pressure = 1015, windSpeed = 12,
                 windGusts = 25, isDay = True\<rparr>,
      daily = [\<lparr>date = ''2025-06-01'', dayWeatherCode = 2, temperatureMax = 23,
                temperatureMin = 14, precipitationSum = 0, precipitationProbability = 5,
                windSpeedMax = 18\<rparr>],
      location = None\<rparr>"

text \<open>
  A world whose data source knows Paris and a mild day, and whose completion service is
  not configured and would fail every request if it were.
\<close>

definition sample_world :: world where
  "sample_world =
     \<lparr>geocoding_api = (\<lambda>h. Inr [paris]), forecast_api = (\<lambda>h. Inr mild_day),
      messages_create = (\<lambda>h. Inl ''overloaded''), latency = (\<lambda>h. 120),
      claudeService = False, weekday_short = (\<lambda>d. ''Sun''), month_day = (\<lambda>d. ''Jun 1''),
      toLocaleString = show_int\<rparr>"

text \<open>A world whose data source is down.\<close>

definition offline_world :: world where
  "offline_world =
     sample_world\<lparr>geocoding_api := (\<lambda>h. Inl ''getaddrinfo ENOTFOUND''),
                  forecast_api := (\<lambda>h. Inl ''getaddrinfo ENOTFOUND'')\<rparr>"

definition new_server :: server where
  "new_server = \<lparr>cache = (\<lambda>k. None), clock = 1700000000000, requests = []\<rparr>"

text \<open>A result whose content is exactly one text block.\<close>

definition one_text :: "tool_result \<Rightarrow> bool" where
  "one_text r = (\<exists>t. content r = [\<lparr>block_type = ''text'', block_text = t\<rparr>])"

text \<open>
  The state after a first lookup of Paris, and after a first forecast for its coordinates,
  on a new server; and a state in which time has passed.
\<close>

definition paris_cached :: server where
  "paris_cached = snd (geocodeCity sample_world new_server (JStr ''Paris'') (JNum 1))"

definition forecast_cached :: server where
  "forecast_cached = snd (getWeatherForecast sample_world new_server (JNum 49) (JNum 2) (JNum 1))"

definition later :: "int \<Rightarrow> server \<Rightarrow> server" where
  "later dt s = s\<lparr>clock := clock s + dt\<rparr>"

text \<open>
  A world whose geocoding endpoint rejects a search that carries no name, as the public
  endpoint does, and knows Paris otherwise.
\<close>

definition strict_world :: world where
  "strict_world =
     sample_world\<lparr>geocoding_api :=
       (\<lambda>h. case last h of
               GeoSearch JUndefined c \<Rightarrow> Inl ''Request failed with status code 400''
             | r \<Rightarrow> Inr [paris])\<rparr>"

text \<open>
  The completion service is down: it is not configured, or it fails every request.
\<close>

definition down :: "world \<Rightarrow> bool" where
  "down w = (\<not> claudeService w \<or> (\<forall>h. \<exists>e. messages_create w h = Inl e))"

text \<open>A world whose geocoding finds no place of the name asked for.\<close>

definition nowhere_world :: world where
  "nowhere_world = sample_world\<lparr>geocoding_api := (\<lambda>h. Inr [])\<rparr>"

text \<open>
  A handshake answer carries a session id: a resolved one has a truthy session header
  (an answer that is not resolved stores nothing).  A request that, if it is a tool call,
  has a truthy session header.
\<close>

fun carries_id :: "http_outcome \<Rightarrow> bool" where
  "carries_id (Resolved hdr d) = truthy_id hdr"
| "carries_id other = True"

definition with_session :: "http_request \<Rightarrow> bool" where
  "with_session r = (\<not> is_tools_call r \<or> truthy_id (session_header r))"

text \<open>
  A provider without sessions: its handshake answer has no session header, and it serves
  every tool call.  A provider with sessions: it hands out one id and serves the tool
  calls that carry it.  A provider that cannot be reached.
\<close>

definition stateless_provider :: provider where
  "stateless_provider hist req =
     Resolved None (SseMessage \<lparr>rpc_error = None, rpc_result = Some ''{}''\<rparr>)"

definition session_provider :: provider where
  "session_provider hist req =
     (case rpc req of
        Initialize \<Rightarrow>
          Resolved (Some ''session-1'') (SseMessage \<lparr>rpc_error = None, rpc_result = Some ''{}''\<rparr>)
      | ToolsCall n a \<Rightarrow>
          (if session_header req = Some ''session-1''
           then Resolved None (SseMessage \<lparr>rpc_error = None, rpc_result = Some ''{}''\<rparr>)
           else Rejected 400 (ErrorData None)))"

definition unreachable_provider :: provider where
  "unreachable_provider hist req = NoResponse"

section \<open>Properties of the gateway's session manager\<close>

lemma attempt_rejecting:
  assumes "mcpSessionId g = None"
  shows "attempt rejecting_provider g t a =
     (Inl (AxiosError 400 (ErrorData (Some ''Bad Request: No valid session ID provided''))),
      g\<lparr>mcpSessionId := Some ''session'',
        sent := sent g @ [\<lparr>session_header = None, rpc = Initialize\<rparr>,
                          \<lparr>session_header = Some ''session'', rpc = ToolsCall t a\<rparr>]\<rparr>)"
  using assms
  by (simp add: attempt_def initializeMCPSession_def rejecting_provider_def truthy_id_def
      call_request_def Let_def)

lemma callMCPTool_rejecting:
  "mcpSessionId g = None \<Longrightarrow>
   fst (callMCPTool n rejecting_provider g t a) = OutOfFuel \<and>
   length (filter is_tools_call (sent (snd (callMCPTool n rejecting_provider g t a)))) =
     length (filter is_tools_call (sent g)) + n \<and>
   length (filter is_initialize (sent (snd (callMCPTool n rejecting_provider g t a)))) =
     length (filter is_initialize (sent g)) + n"
proof (induction n arbitrary: g)
  case 0
  then show ?case by simp
next
  case (Suc n)
  let ?g' = "g\<lparr>sent := sent g @ [\<lparr>session_header = None, rpc = Initialize\<rparr>,
                          \<lparr>session_header = Some ''session'', rpc = ToolsCall t a\<rparr>],
        mcpSessionId := None\<rparr>"
  have step: "callMCPTool (Suc n) rejecting_provider g t a = callMCPTool n rejecting_provider ?g' t a"
    using Suc.prems by (simp add: attempt_rejecting)
  have "mcpSessionId ?g' = None" by simp
  from Suc.IH [OF this] show ?case
    unfolding step by (simp add: is_tools_call_def is_initialize_def)
qed

text \<open>
  The path the retry is written for: the stored id has expired, the provider rejects the
  call that carries it, hands out a new id and serves the call that carries that one.
\<close>

lemma callMCPTool_recovers_once:
  "callMCPTool 2 session_provider \<lparr>mcpSessionId = Some ''stale'', sent = []\<rparr> ''get_weather''
     [(''city'', JStr ''Paris'')] =
     (Returned ''{}'',
      \<lparr>mcpSessionId = Some ''session-1'',
       sent = [\<lparr>session_header = Some ''stale'',
                rpc = ToolsCall ''get_weather'' [(''city'', JStr ''Paris'')]\<rparr>,
               \<lparr>session_header = None, rpc = Initialize\<rparr>,
               \<lparr>session_header = Some ''session-1'',
                rpc = ToolsCall ''get_weather'' [(''city'', JStr ''Paris'')]\<rparr>]\<rparr>)"
  by (simp add: numeral_2_eq_2 attempt_def initializeMCPSession_def session_provider_def
      truthy_id_def call_request_def read_message_def Let_def)

text \<open>
  Claim C1 (retry exactly once, then a fatal error; the retry always terminates).
  The code does not do this.  Against a provider that completes every handshake and
  rejects every tool call with status 400, \<^verbatim>\<open>callMCPTool\<close> never ends: whatever
  number \<open>n\<close> of attempts it is allowed, it has neither returned nor thrown after them,
  and it has by then sent \<open>n\<close> handshakes and \<open>n\<close> tool calls.  The second rejection is
  not surfaced to the caller; it is answered like the first, with one more handshake.
\<close>

theorem callMCPTool_retries_without_bound:
  "\<forall>n. fst (callMCPTool n rejecting_provider fresh_gateway ''get_weather'' [(''city'', JStr ''Paris'')])
         = OutOfFuel
     \<and> length (filter is_tools_call
          (sent (snd (callMCPTool n rejecting_provider fresh_gateway ''get_weather''
             [(''city'', JStr ''Paris'')])))) = n
     \<and> length (filter is_initialize
          (sent (snd (callMCPTool n rejecting_provider fresh_gateway ''get_weather''
             [(''city'', JStr ''Paris'')])))) = n"
  using callMCPTool_rejecting [of fresh_gateway] by (simp add: fresh_gateway_def)

section \<open>Properties of the tool dispatcher\<close>

lemma str_includes_sublist: "str_includes s k \<longleftrightarrow> sublist k s"
  by (induction s) (auto simp: sublist_Cons_right)

lemma content_text_result [simp]:
  "content (text_result t) = [\<lparr>block_type = ''text'', block_text = t\<rparr>]"
  by (simp add: text_result_def)

lemma content_weather_result [simp]:
  "content (weather_result t wd ty ai) = [\<lparr>block_type = ''text'', block_text = t\<rparr>]"
  by (simp add: weather_result_def)

lemma isError_text_result [simp]: "isError (text_result t) = None"
  by (simp add: text_result_def)

lemma isError_weather_result [simp]: "isError (weather_result t wd ty ai) = None"
  by (simp add: weather_result_def)

lemma one_text_simps [simp]:
  "one_text (text_result t)" "one_text (weather_result t wd ty ai)"
  "one_text (r\<lparr>isError := e\<rparr>) = one_text r"
  "one_text (r\<lparr>aiAnalyzed := a\<rparr>) = one_text r"
  "one_text (r\<lparr>weatherData := d\<rparr>) = one_text r"
  "one_text (r\<lparr>result_type := y\<rparr>) = one_text r"
  "one_text (r\<lparr>locations := l\<rparr>) = one_text r"
  "one_text (r\<lparr>result_count := c\<rparr>) = one_text r"
  by (simp_all add: one_text_def)

lemma handleGetWeather_content:
  "handleGetWeather w s city = (Inr r, s') \<Longrightarrow> one_text r"
  by (auto simp: handleGetWeather_def split: prod.splits chat_result.splits sum.splits if_splits)

lemma handleGetForecast_content:
  "handleGetForecast w s city days = (Inr r, s') \<Longrightarrow> one_text r"
  by (auto simp: handleGetForecast_def split: prod.splits chat_result.splits sum.splits if_splits)

lemma handleGetWeatherByCoords_content:
  "handleGetWeatherByCoords w s lat lon days = (Inr r, s') \<Longrightarrow> one_text r"
  by (auto simp: handleGetWeatherByCoords_def Let_def
      split: prod.splits payload.splits sum.splits if_splits)

lemma handleWeatherQuestion_content:
  "handleWeatherQuestion w s q city = (Inr r, s') \<Longrightarrow> one_text r"
  by (auto simp: handleWeatherQuestion_def Let_def
      split: prod.splits chat_result.splits sum.splits if_splits)

lemma handleGeocodeCity_content:
  "handleGeocodeCity w s city cnt = (Inr r, s') \<Longrightarrow> one_text r"
  by (auto simp: handleGeocodeCity_def Let_def
      split: prod.splits payload.splits sum.splits if_splits)

lemma dispatch_content:
  "dispatch w s toolName args = (Inr r, s') \<Longrightarrow> one_text r"
  by (auto simp: dispatch_def split: if_splits
      dest: handleGetWeather_content handleGetForecast_content handleGetWeatherByCoords_content
        handleWeatherQuestion_content handleGeocodeCity_content)

text \<open>
  Claim C9.  Every result that \<^verbatim>\<open>callTool\<close> returns, whatever the tool name, the
  arguments, the collaborators and the state, and on the error path of the catch block as
  on every handler's path, has a content holding a text block (exactly one).
\<close>

theorem callTool_content_present:
  "\<exists>t. content (fst (callTool w s toolName args)) = [\<lparr>block_type = ''text'', block_text = t\<rparr>]"
proof (cases "dispatch w s toolName args")
  case (Pair outcome s')
  show ?thesis
  proof (cases outcome)
    case (Inl e)
    with Pair show ?thesis by (simp add: callTool_def error_result_def)
  next
    case (Inr r)
    with Pair have "one_text r" by (auto dest: dispatch_content)
    with Pair Inr show ?thesis by (simp add: callTool_def one_text_def)
  qed
qed

lemma dispatch_unknown:
  "toolName \<notin> set tool_names \<Longrightarrow> dispatch w s toolName args = (Inl (''Unknown tool: '' @ toolName), s)"
  by (simp add: dispatch_def tool_names_def)

text \<open>
  Claim C4.  A tool name that is not one of the five registered names reaches the default
  branch: the call returns (it does not throw) a result with the error flag set, whose
  single text block is "Error calling tool NAME: Unknown tool: NAME", a message of its
  own kind, and no collaborator has been contacted.
\<close>

theorem callTool_unknown_tool:
  assumes "toolName \<notin> set tool_names"
  shows "callTool w s toolName args =
           ((text_result (''Error calling tool '' @ toolName @ '': Unknown tool: '' @ toolName))
              \<lparr>isError := Some True\<rparr>, s)
         \<and> isError (fst (callTool w s toolName args)) = Some True
         \<and> content (fst (callTool w s toolName args)) =
             [\<lparr>block_type = ''text'',
               block_text = ''Error calling tool '' @ toolName @ '': Unknown tool: '' @ toolName\<rparr>]
         \<and> sublist (''Unknown tool: '' @ toolName)
               (block_text (hd (content (fst (callTool w s toolName args)))))
         \<and> requests (snd (callTool w s toolName args)) = requests s"
proof -
  have c: "callTool w s toolName args = (error_result toolName (''Unknown tool: '' @ toolName), s)"
    using assms by (simp add: callTool_def dispatch_unknown)
  have "sublist (''Unknown tool: '' @ toolName)
          ((''Error calling tool '' @ toolName @ '': '') @ (''Unknown tool: '' @ toolName) @ [])"
    by (rule sublist_appendI)
  then show ?thesis
    unfolding c by (simp add: error_result_def)
qed

theorem callTool_unknown_tool_witness:
  "''nonexistent_tool_xyz'' \<notin> set tool_names
   \<and> content (fst (callTool sample_world new_server ''nonexistent_tool_xyz'' [])) =
       [\<lparr>block_type = ''text'',
         block_text = ''Error calling tool nonexistent_tool_xyz: Unknown tool: nonexistent_tool_xyz''\<rparr>]
   \<and> isError (fst (callTool sample_world new_server ''nonexistent_tool_xyz'' [])) = Some True"
proof -
  have h: "''nonexistent_tool_xyz'' \<notin> set tool_names"
    by (simp add: tool_names_def)
  from callTool_unknown_tool [OF h, of sample_world new_server "[]"] h
  show ?thesis by simp
qed

lemma answerWeatherQuestion_returns:
  "\<exists>t s'. answerWeatherQuestion w s q wd city = (Inr t, s')"
  by (simp add: answerWeatherQuestion_def Let_def split: sum.splits)




lemma sublist_tail: "sublist e (a @ e)"
  using sublist_appendI [of e a "[]"] by simp

text \<open>
  Claim C2.  For every registered tool name and every argument bag, \<^verbatim>\<open>callTool\<close>
  returns a result: when the handler throws an error with message \<open>e\<close>, the result has
  the error flag set and its one text block is "Error calling tool NAME: " followed by
  \<open>e\<close>; when the handler returns, its result is passed on unchanged.  In particular a
  failure of the geocoding request (message \<open>m\<close>) in the three tools that geocode, and
  a failure of the forecast request in the lookup by coordinates, end in an error result
  whose text holds \<open>m\<close>.
\<close>

theorem callTool_never_raises:
  assumes "toolName \<in> set tool_names"
  shows "(\<forall>e s'. dispatch w s toolName args = (Inl e, s') \<longrightarrow>
            callTool w s toolName args =
              ((text_result (''Error calling tool '' @ toolName @ '': '' @ e))\<lparr>isError := Some True\<rparr>, s')
            \<and> isError (fst (callTool w s toolName args)) = Some True
            \<and> content (fst (callTool w s toolName args)) =
                [\<lparr>block_type = ''text'',
                  block_text = ''Error calling tool '' @ toolName @ '': '' @ e\<rparr>]
            \<and> sublist e (block_text (hd (content (fst (callTool w s toolName args))))))
       \<and> (\<forall>r s'. dispatch w s toolName args = (Inr r, s') \<longrightarrow>
            callTool w s toolName args = (r, s'))
       \<and> (\<forall>city m. toolName \<in> {''get_weather'', ''get_forecast'', ''geocode_city''} \<longrightarrow>
            arg args ''count'' = JUndefined \<longrightarrow> arg args ''city'' = city \<longrightarrow>
            cached s (geocode_key city (JNum 1)) (cacheTimeout * 6) = None \<longrightarrow>
            geocoding_api w (requests s @ [GeoSearch city (JNum 1)]) = Inl m \<longrightarrow>
            isError (fst (callTool w s toolName args)) = Some True
            \<and> sublist m (block_text (hd (content (fst (callTool w s toolName args))))))
       \<and> (\<forall>lat lon m. toolName = ''get_weather_by_coords'' \<longrightarrow>
            arg args ''days'' = JUndefined \<longrightarrow>
            arg args ''latitude'' = lat \<longrightarrow> arg args ''longitude'' = lon \<longrightarrow>
            cached s (forecast_key lat lon (JNum 1)) cacheTimeout = None \<longrightarrow>
            forecast_api w (requests s @ [ForecastQuery lat lon (JNum 1)]) = Inl m \<longrightarrow>
            isError (fst (callTool w s toolName args)) = Some True
            \<and> sublist m (block_text (hd (content (fst (callTool w s toolName args))))))"
proof -
  have 1: "callTool w s toolName args =
              ((text_result (''Error calling tool '' @ toolName @ '': '' @ e))\<lparr>isError := Some True\<rparr>, s')
            \<and> isError (fst (callTool w s toolName args)) = Some True
            \<and> content (fst (callTool w s toolName args)) =
                [\<lparr>block_type = ''text'',
                  block_text = ''Error calling tool '' @ toolName @ '': '' @ e\<rparr>]
            \<and> sublist e (block_text (hd (content (fst (callTool w s toolName args)))))"
    if "dispatch w s toolName args = (Inl e, s')" for e s'
  proof -
    have "sublist e ((''Error calling tool '' @ toolName @ '': '') @ e)"
      by (rule sublist_tail)
    with that show ?thesis by (simp add: callTool_def error_result_def)
  qed
  have 2: "callTool w s toolName args = (r, s')"
    if "dispatch w s toolName args = (Inr r, s')" for r s'
    using that by (simp add: callTool_def)
  have 3: "isError (fst (callTool w s toolName args)) = Some True
           \<and> sublist m (block_text (hd (content (fst (callTool w s toolName args)))))"
    if t: "toolName \<in> {''get_weather'', ''get_forecast'', ''geocode_city''}"
      and n: "arg args ''count'' = JUndefined" and c: "arg args ''city'' = city"
      and miss: "cached s (geocode_key city (JNum 1)) (cacheTimeout * 6) = None"
      and fail: "geocoding_api w (requests s @ [GeoSearch city (JNum 1)]) = Inl m" for city m
  proof -
    let ?s1 = "await w s (GeoSearch city (JNum 1))"
    let ?e = "''Failed to geocode '' @ to_str city @ '': '' @ m"
    have g: "geocodeCity w s city (JNum 1) = (Inl ?e, ?s1)"
      using miss fail by (simp add: geocodeCity_def Let_def await_def)
    have d: "dispatch w s toolName args = (Inl ?e, ?s1)"
      using t n c g
      by (auto simp: dispatch_def handleGetWeather_def handleGetForecast_def handleGeocodeCity_def
          getWeatherForChat_def)
    have "sublist m ((''Error calling tool '' @ toolName @ '': Failed to geocode '' @ to_str city @ '': '') @ m)"
      by (rule sublist_tail)
    with 1 [OF d] show ?thesis by simp
  qed
  have 4: "isError (fst (callTool w s toolName args)) = Some True
           \<and> sublist m (block_text (hd (content (fst (callTool w s toolName args)))))"
    if t: "toolName = ''get_weather_by_coords''"
      and n: "arg args ''days'' = JUndefined"
      and c: "arg args ''latitude'' = lat" "arg args ''longitude'' = lon"
      and miss: "cached s (forecast_key lat lon (JNum 1)) cacheTimeout = None"
      and fail: "forecast_api w (requests s @ [ForecastQuery lat lon (JNum 1)]) = Inl m" for lat lon m
  proof -
    let ?s1 = "await w s (ForecastQuery lat lon (JNum 1))"
    let ?p = "''Failed to get forecast for coordinates '' @ to_str lat @ '', '' @ to_str lon @ '': ''"
    have g: "getWeatherForecast w s lat lon (JNum 1) = (Inl (?p @ m), ?s1)"
      using miss fail by (simp add: getWeatherForecast_def Let_def await_def)
    have d: "dispatch w s toolName args = (Inl (?p @ m), ?s1)"
      using t n c g by (simp add: dispatch_def handleGetWeatherByCoords_def)
    have "sublist m ((''Error calling tool '' @ toolName @ '': '' @ ?p) @ m)"
      by (rule sublist_tail)
    with 1 [OF d] show ?thesis by simp
  qed
  from 1 2 3 4 show ?thesis by blast
qed

lemma offline_get_weather:
  "dispatch offline_world new_server ''get_weather'' [(''city'', JStr ''Paris'')] =
     (Inl ''Failed to geocode Paris: getaddrinfo ENOTFOUND'',
      await offline_world new_server (GeoSearch (JStr ''Paris'') (JNum 1)))"
  by (simp add: dispatch_def handleGetWeather_def getWeatherForChat_def geocodeCity_def Let_def
      cached_def new_server_def arg_def offline_world_def sample_world_def await_def)

lemma sample_question:
  "dispatch sample_world new_server ''ask_weather_question'' [] =
     (Inr ((text_result apology)\<lparr>aiAnalyzed := Some False\<rparr>), new_server)"
  by (simp add: dispatch_def handleWeatherQuestion_def arg_def sample_world_def)

theorem callTool_never_raises_witness:
  "''get_weather'' \<in> set tool_names
   \<and> dispatch offline_world new_server ''get_weather'' [(''city'', JStr ''Paris'')] =
       (Inl ''Failed to geocode Paris: getaddrinfo ENOTFOUND'',
        await offline_world new_server (GeoSearch (JStr ''Paris'') (JNum 1)))
   \<and> isError (fst (callTool offline_world new_server ''get_weather'' [(''city'', JStr ''Paris'')]))
       = Some True
   \<and> content (fst (callTool offline_world new_server ''get_weather'' [(''city'', JStr ''Paris'')])) =
       [\<lparr>block_type = ''text'',
         block_text = ''Error calling tool get_weather: Failed to geocode Paris: getaddrinfo ENOTFOUND''\<rparr>]
   \<and> ''ask_weather_question'' \<in> set tool_names
   \<and> dispatch sample_world new_server ''ask_weather_question'' [] =
       (Inr ((text_result apology)\<lparr>aiAnalyzed := Some False\<rparr>), new_server)
   \<and> callTool sample_world new_server ''ask_weather_question'' [] =
       ((text_result apology)\<lparr>aiAnalyzed := Some False\<rparr>, new_server)
   \<and> ''get_weather'' \<in> {''get_weather'', ''get_forecast'', ''geocode_city''}
   \<and> arg [(''city'', JStr ''Paris'')] ''count'' = JUndefined
   \<and> arg [(''city'', JStr ''Paris'')] ''city'' = JStr ''Paris''
   \<and> cached new_server (geocode_key (JStr ''Paris'') (JNum 1)) (cacheTimeout * 6) = None
   \<and> geocoding_api offline_world (requests new_server @ [GeoSearch (JStr ''Paris'') (JNum 1)]) =
       Inl ''getaddrinfo ENOTFOUND''
   \<and> sublist ''getaddrinfo ENOTFOUND''
         (block_text (hd (content (fst (callTool offline_world new_server ''get_weather''
            [(''city'', JStr ''Paris'')])))))
   \<and> ''get_weather_by_coords'' \<in> set tool_names
   \<and> arg [(''latitude'', JNum 49), (''longitude'', JNum 2)] ''days'' = JUndefined
   \<and> cached new_server (forecast_key (JNum 49) (JNum 2) (JNum 1)) cacheTimeout = None
   \<and> forecast_api offline_world (requests new_server @ [ForecastQuery (JNum 49) (JNum 2) (JNum 1)]) =
       Inl ''getaddrinfo ENOTFOUND''
   \<and> isError (fst (callTool offline_world new_server ''get_weather_by_coords''
         [(''latitude'', JNum 49), (''longitude'', JNum 2)])) = Some True"
proof -
  let ?paris = "[(''city'', JStr ''Paris'')]"
  let ?coords = "[(''latitude'', JNum 49), (''longitude'', JNum 2)]"
  have h: "''get_weather'' \<in> set tool_names"
    and hq: "''ask_weather_question'' \<in> set tool_names"
    and hc: "''get_weather_by_coords'' \<in> set tool_names"
    by (simp_all add: tool_names_def)
  have t: "''get_weather'' \<in> {''get_weather'', ''get_forecast'', ''geocode_city''}" by simp
  have a: "arg ?paris ''count'' = JUndefined" "arg ?paris ''city'' = JStr ''Paris''"
    "arg ?coords ''days'' = JUndefined" "arg ?coords ''latitude'' = JNum 49"
    "arg ?coords ''longitude'' = JNum 2"
    by (simp_all add: arg_def)
  have m: "cached new_server (geocode_key (JStr ''Paris'') (JNum 1)) (cacheTimeout * 6) = None"
    "cached new_server (forecast_key (JNum 49) (JNum 2) (JNum 1)) cacheTimeout = None"
    by (simp_all add: cached_def new_server_def)
  have f: "geocoding_api offline_world (requests new_server @ [GeoSearch (JStr ''Paris'') (JNum 1)]) =
             Inl ''getaddrinfo ENOTFOUND''"
    "forecast_api offline_world (requests new_server @ [ForecastQuery (JNum 49) (JNum 2) (JNum 1)]) =
             Inl ''getaddrinfo ENOTFOUND''"
    by (simp_all add: offline_world_def)
  note A = callTool_never_raises [OF h, of offline_world new_server ?paris]
  note B = callTool_never_raises [OF hq, of sample_world new_server "[]"]
  note C = callTool_never_raises [OF hc, of offline_world new_server ?coords]
  note A1 = A [THEN conjunct1, rule_format, OF offline_get_weather]
  note B2 = B [THEN conjunct2, THEN conjunct1, rule_format, OF sample_question]
  note A3 = A [THEN conjunct2, THEN conjunct2, THEN conjunct1, rule_format, OF t a(1) a(2) m(1) f(1)]
  note C4 = C [THEN conjunct2, THEN conjunct2, THEN conjunct2, rule_format,
      OF refl a(3) a(4) a(5) m(2) f(2)]
  from h hq hc t a m f offline_get_weather sample_question A1 B2 A3 C4
  show ?thesis by simp
qed

section \<open>Properties of the response cache\<close>

lemma cached_Some_iff:
  "cached s k ttl = Some v \<longleftrightarrow>
     (\<exists>e. cache s k = Some e \<and> data e = v \<and> clock s - timestamp e < ttl)"
  by (auto simp: cached_def split: option.splits)

lemma cached_None_iff:
  "cached s k ttl = None \<longleftrightarrow>
     (cache s k = None \<or> (\<exists>e. cache s k = Some e \<and> ttl \<le> clock s - timestamp e))"
  by (auto simp: cached_def split: option.splits)

lemma geocodeCity_hit:
  "cnt \<noteq> JUndefined \<Longrightarrow> cached s (geocode_key city cnt) (cacheTimeout * 6) = Some v \<Longrightarrow>
   geocodeCity w s city cnt = (Inr v, s)"
  by (simp add: geocodeCity_def)

lemma geocodeCity_miss:
  "cnt \<noteq> JUndefined \<Longrightarrow> cached s (geocode_key city cnt) (cacheTimeout * 6) = None \<Longrightarrow>
   requests (snd (geocodeCity w s city cnt)) = requests s @ [GeoSearch city cnt]"
  by (simp add: geocodeCity_def Let_def await_def cache_set_def split: sum.splits)

lemma geocodeCity_stores:
  "cnt \<noteq> JUndefined \<Longrightarrow> cached s (geocode_key city cnt) (cacheTimeout * 6) = None \<Longrightarrow>
   geocodeCity w s city cnt = (Inr v, s1) \<Longrightarrow>
   cache s1 (geocode_key city cnt) = Some \<lparr>data = v, timestamp = clock s1\<rparr>"
  by (auto simp: geocodeCity_def Let_def await_def cache_set_def split: sum.splits)

lemma getWeatherForecast_hit:
  "days \<noteq> JUndefined \<Longrightarrow> cached s (forecast_key lat lon days) cacheTimeout = Some v \<Longrightarrow>
   getWeatherForecast w s lat lon days = (Inr v, s)"
  by (simp add: getWeatherForecast_def)

lemma getWeatherForecast_miss:
  "days \<noteq> JUndefined \<Longrightarrow> cached s (forecast_key lat lon days) cacheTimeout = None \<Longrightarrow>
   requests (snd (getWeatherForecast w s lat lon days)) = requests s @ [ForecastQuery lat lon days]"
  by (simp add: getWeatherForecast_def Let_def await_def cache_set_def split: sum.splits)

lemma getWeatherForecast_stores:
  "days \<noteq> JUndefined \<Longrightarrow> cached s (forecast_key lat lon days) cacheTimeout = None \<Longrightarrow>
   getWeatherForecast w s lat lon days = (Inr v, s1) \<Longrightarrow>
   cache s1 (forecast_key lat lon days) = Some \<lparr>data = v, timestamp = clock s1\<rparr>"
  by (auto simp: getWeatherForecast_def Let_def await_def cache_set_def split: sum.splits)

lemma key_prefixes: "geocode_key city cnt \<noteq> forecast_key lat lon days"
  by (simp add: geocode_key_def forecast_key_def)

lemma ttl_ratio: "cacheTimeout * 6 = 6 * cacheTimeout \<and> cacheTimeout < cacheTimeout * 6
                  \<and> cacheTimeout = 600000"
  by (simp add: cacheTimeout_def)

text \<open>
  Claim C5.  The cache test returns the stored value exactly when the key has an entry
  and \<open>now - timestamp\<close> is strictly below the time to live, and nothing when there is
  no entry or \<open>now - timestamp\<close> has reached it.  For the geocoding lookup (time to live
  \<open>cacheTimeout * 6\<close>) and for the forecast (time to live \<open>cacheTimeout\<close>): a fresh
  entry is returned and the state, with the list of requests, is left as it is; without
  one the data source is asked; and after a fetch that has stored its value at \<open>s1\<close>, the
  same fetch in any later state \<open>s2\<close> that still has the entry returns that value
  without a request if less than the time to live has passed, and asks the data source
  again otherwise, whatever the collaborators are by then.  The geocoding time to live is
  six times the forecast's ten minutes, and no key of one kind is a key of the other.
\<close>

theorem cache_ttl:
  "(cached s k ttl = Some v \<longleftrightarrow>
      (\<exists>e. cache s k = Some e \<and> data e = v \<and> clock s - timestamp e < ttl))
   \<and> (cached s k ttl = None \<longleftrightarrow>
      (cache s k = None \<or> (\<exists>e. cache s k = Some e \<and> ttl \<le> clock s - timestamp e)))
   \<and> (cnt \<noteq> JUndefined \<longrightarrow>
        (cached s (geocode_key city cnt) (cacheTimeout * 6) = Some v \<longrightarrow>
           geocodeCity w s city cnt = (Inr v, s))
      \<and> (cached s (geocode_key city cnt) (cacheTimeout * 6) = None \<longrightarrow>
           requests (snd (geocodeCity w s city cnt)) = requests s @ [GeoSearch city cnt])
      \<and> (cached s (geocode_key city cnt) (cacheTimeout * 6) = None \<longrightarrow>
         geocodeCity w s city cnt = (Inr v, s1) \<longrightarrow>
         cache s2 (geocode_key city cnt) = cache s1 (geocode_key city cnt) \<longrightarrow>
           (clock s2 - clock s1 < cacheTimeout * 6 \<longrightarrow> geocodeCity w' s2 city cnt = (Inr v, s2))
         \<and> (cacheTimeout * 6 \<le> clock s2 - clock s1 \<longrightarrow>
              requests (snd (geocodeCity w' s2 city cnt)) = requests s2 @ [GeoSearch city cnt])))
   \<and> (days \<noteq> JUndefined \<longrightarrow>
        (cached s (forecast_key lat lon days) cacheTimeout = Some v \<longrightarrow>
           getWeatherForecast w s lat lon days = (Inr v, s))
      \<and> (cached s (forecast_key lat lon days) cacheTimeout = None \<longrightarrow>
           requests (snd (getWeatherForecast w s lat lon days)) =
             requests s @ [ForecastQuery lat lon days])
      \<and> (cached s (forecast_key lat lon days) cacheTimeout = None \<longrightarrow>
         getWeatherForecast w s lat lon days = (Inr v, s1) \<longrightarrow>
         cache s2 (forecast_key lat lon days) = cache s1 (forecast_key lat lon days) \<longrightarrow>
           (clock s2 - clock s1 < cacheTimeout \<longrightarrow>
              getWeatherForecast w' s2 lat lon days = (Inr v, s2))
         \<and> (cacheTimeout \<le> clock s2 - clock s1 \<longrightarrow>
              requests (snd (getWeatherForecast w' s2 lat lon days)) =
                requests s2 @ [ForecastQuery lat lon days])))
   \<and> cacheTimeout * 6 = 6 * cacheTimeout \<and> cacheTimeout < cacheTimeout * 6
   \<and> cacheTimeout = 600000
   \<and> geocode_key city cnt \<noteq> forecast_key lat lon days"
proof -
  have g: "(clock s2 - clock s1 < cacheTimeout * 6 \<longrightarrow> geocodeCity w' s2 city cnt = (Inr v, s2))
         \<and> (cacheTimeout * 6 \<le> clock s2 - clock s1 \<longrightarrow>
              requests (snd (geocodeCity w' s2 city cnt)) = requests s2 @ [GeoSearch city cnt])"
    if "cnt \<noteq> JUndefined" "cached s (geocode_key city cnt) (cacheTimeout * 6) = None"
       "geocodeCity w s city cnt = (Inr v, s1)"
       "cache s2 (geocode_key city cnt) = cache s1 (geocode_key city cnt)"
  proof -
    have e: "cache s2 (geocode_key city cnt) = Some \<lparr>data = v, timestamp = clock s1\<rparr>"
      using geocodeCity_stores [OF that(1,2,3)] that(4) by simp
    have "cached s2 (geocode_key city cnt) (cacheTimeout * 6) = Some v"
      if "clock s2 - clock s1 < cacheTimeout * 6"
      using that e by (simp add: cached_def)
    moreover have "cached s2 (geocode_key city cnt) (cacheTimeout * 6) = None"
      if "cacheTimeout * 6 \<le> clock s2 - clock s1"
      using that e by (simp add: cached_def)
    ultimately show ?thesis
      using geocodeCity_hit [OF that(1)] geocodeCity_miss [OF that(1)] by blast
  qed
  have f: "(clock s2 - clock s1 < cacheTimeout \<longrightarrow>
              getWeatherForecast w' s2 lat lon days = (Inr v, s2))
         \<and> (cacheTimeout \<le> clock s2 - clock s1 \<longrightarrow>
              requests (snd (getWeatherForecast w' s2 lat lon days)) =
                requests s2 @ [ForecastQuery lat lon days])"
    if "days \<noteq> JUndefined" "cached s (forecast_key lat lon days) cacheTimeout = None"
       "getWeatherForecast w s lat lon days = (Inr v, s1)"
       "cache s2 (forecast_key lat lon days) = cache s1 (forecast_key lat lon days)"
  proof -
    have e: "cache s2 (forecast_key lat lon days) = Some \<lparr>data = v, timestamp = clock s1\<rparr>"
      using getWeatherForecast_stores [OF that(1,2,3)] that(4) by simp
    have "cached s2 (forecast_key lat lon days) cacheTimeout = Some v"
      if "clock s2 - clock s1 < cacheTimeout"
      using that e by (simp add: cached_def)
    moreover have "cached s2 (forecast_key lat lon days) cacheTimeout = None"
      if "cacheTimeout \<le> clock s2 - clock s1"
      using that e by (simp add: cached_def)
    ultimately show ?thesis
      using getWeatherForecast_hit [OF that(1)] getWeatherForecast_miss [OF that(1)] by blast
  qed
  have G: "cnt \<noteq> JUndefined \<longrightarrow>
        (cached s (geocode_key city cnt) (cacheTimeout * 6) = Some v \<longrightarrow>
           geocodeCity w s city cnt = (Inr v, s))
      \<and> (cached s (geocode_key city cnt) (cacheTimeout * 6) = None \<longrightarrow>
           requests (snd (geocodeCity w s city cnt)) = requests s @ [GeoSearch city cnt])
      \<and> (cached s (geocode_key city cnt) (cacheTimeout * 6) = None \<longrightarrow>
         geocodeCity w s city cnt = (Inr v, s1) \<longrightarrow>
         cache s2 (geocode_key city cnt) = cache s1 (geocode_key city cnt) \<longrightarrow>
           (clock s2 - clock s1 < cacheTimeout * 6 \<longrightarrow> geocodeCity w' s2 city cnt = (Inr v, s2))
         \<and> (cacheTimeout * 6 \<le> clock s2 - clock s1 \<longrightarrow>
              requests (snd (geocodeCity w' s2 city cnt)) = requests s2 @ [GeoSearch city cnt]))"
    using geocodeCity_hit [of cnt s city v w] geocodeCity_miss [of cnt s city w] g by blast
  have F: "days \<noteq> JUndefined \<longrightarrow>
        (cached s (forecast_key lat lon days) cacheTimeout = Some v \<longrightarrow>
           getWeatherForecast w s lat lon days = (Inr v, s))
      \<and> (cached s (forecast_key lat lon days) cacheTimeout = None \<longrightarrow>
           requests (snd (getWeatherForecast w s lat lon days)) =
             requests s @ [ForecastQuery lat lon days])
      \<and> (cached s (forecast_key lat lon days) cacheTimeout = None \<longrightarrow>
         getWeatherForecast w s lat lon days = (Inr v, s1) \<longrightarrow>
         cache s2 (forecast_key lat lon days) = cache s1 (forecast_key lat lon days) \<longrightarrow>
           (clock s2 - clock s1 < cacheTimeout \<longrightarrow>
              getWeatherForecast w' s2 lat lon days = (Inr v, s2))
         \<and> (cacheTimeout \<le> clock s2 - clock s1 \<longrightarrow>
              requests (snd (getWeatherForecast w' s2 lat lon days)) =
                requests s2 @ [ForecastQuery lat lon days]))"
    using getWeatherForecast_hit [of days s lat lon v w]
      getWeatherForecast_miss [of days s lat lon w] f by blast
  show ?thesis
    by (intro conjI cached_Some_iff cached_None_iff G F key_prefixes
        ttl_ratio [THEN conjunct1] ttl_ratio [THEN conjunct2, THEN conjunct1]
        ttl_ratio [THEN conjunct2, THEN conjunct2])
qed

lemma paris_first_fetch:
  "geocodeCity sample_world new_server (JStr ''Paris'') (JNum 1) = (Inr (Locations [paris]), paris_cached)"
  by (simp add: paris_cached_def geocodeCity_def Let_def cached_def new_server_def sample_world_def
      await_def cache_set_def)

lemma forecast_first_fetch:
  "getWeatherForecast sample_world new_server (JNum 49) (JNum 2) (JNum 1) =
     (Inr (ForecastResult mild_day), forecast_cached)"
  by (simp add: forecast_cached_def getWeatherForecast_def Let_def cached_def new_server_def
      sample_world_def await_def cache_set_def mild_day_def)

theorem cache_ttl_witness:
  "cached new_server (geocode_key (JStr ''Paris'') (JNum 1)) (cacheTimeout * 6) = None
   \<and> geocodeCity sample_world new_server (JStr ''Paris'') (JNum 1) =
       (Inr (Locations [paris]), paris_cached)
   \<and> requests paris_cached = [GeoSearch (JStr ''Paris'') (JNum 1)]
   \<and> clock (later 3599999 paris_cached) - clock paris_cached < cacheTimeout * 6
   \<and> geocodeCity offline_world (later 3599999 paris_cached) (JStr ''Paris'') (JNum 1) =
       (Inr (Locations [paris]), later 3599999 paris_cached)
   \<and> cacheTimeout * 6 \<le> clock (later 3600000 paris_cached) - clock paris_cached
   \<and> requests (snd (geocodeCity offline_world (later 3600000 paris_cached) (JStr ''Paris'') (JNum 1))) =
       [GeoSearch (JStr ''Paris'') (JNum 1), GeoSearch (JStr ''Paris'') (JNum 1)]
   \<and> cached new_server (forecast_key (JNum 49) (JNum 2) (JNum 1)) cacheTimeout = None
   \<and> getWeatherForecast sample_world new_server (JNum 49) (JNum 2) (JNum 1) =
       (Inr (ForecastResult mild_day), forecast_cached)
   \<and> clock (later 599999 forecast_cached) - clock forecast_cached < cacheTimeout
   \<and> getWeatherForecast offline_world (later 599999 forecast_cached) (JNum 49) (JNum 2) (JNum 1) =
       (Inr (ForecastResult mild_day), later 599999 forecast_cached)
   \<and> cacheTimeout \<le> clock (later 600000 forecast_cached) - clock forecast_cached
   \<and> requests (snd (getWeatherForecast offline_world (later 600000 forecast_cached)
                       (JNum 49) (JNum 2) (JNum 1))) =
       [ForecastQuery (JNum 49) (JNum 2) (JNum 1), ForecastQuery (JNum 49) (JNum 2) (JNum 1)]"
proof -
  let ?gk = "geocode_key (JStr ''Paris'') (JNum 1)"
  let ?fk = "forecast_key (JNum 49) (JNum 2) (JNum 1)"
  have n: "JNum 1 \<noteq> JUndefined" by simp
  have e: "requests new_server = []" by (simp add: new_server_def)
  have m1: "cached new_server ?gk (cacheTimeout * 6) = None"
    and m2: "cached new_server ?fk cacheTimeout = None"
    by (simp_all add: cached_def new_server_def)
  have t1: "clock (later 3599999 paris_cached) - clock paris_cached < cacheTimeout * 6"
    and t2: "cacheTimeout * 6 \<le> clock (later 3600000 paris_cached) - clock paris_cached"
    and t3: "clock (later 599999 forecast_cached) - clock forecast_cached < cacheTimeout"
    and t4: "cacheTimeout \<le> clock (later 600000 forecast_cached) - clock forecast_cached"
    by (simp_all add: later_def cacheTimeout_def)
  have c: "cache (later dt s) k = cache s k" for dt s k
    by (simp add: later_def)
  have rq: "requests (later dt s) = requests s" for dt s
    by (simp add: later_def)
  note G = cache_ttl [THEN conjunct2, THEN conjunct2, THEN conjunct1, THEN mp, OF n]
  note F = cache_ttl [THEN conjunct2, THEN conjunct2, THEN conjunct2, THEN conjunct1, THEN mp, OF n]
  note G_miss = G [THEN conjunct2, THEN conjunct1, THEN mp]
  note F_miss = F [THEN conjunct2, THEN conjunct1, THEN mp]
  note G_again = G [THEN conjunct2, THEN conjunct2, THEN mp, THEN mp, THEN mp,
      OF m1 paris_first_fetch c]
  note F_again = F [THEN conjunct2, THEN conjunct2, THEN mp, THEN mp, THEN mp,
      OF m2 forecast_first_fetch c]
  have r1: "requests paris_cached = [GeoSearch (JStr ''Paris'') (JNum 1)]"
    using G_miss [OF m1, of sample_world] by (simp add: paris_first_fetch e)
  have r2: "requests forecast_cached = [ForecastQuery (JNum 49) (JNum 2) (JNum 1)]"
    using F_miss [OF m2, of sample_world] by (simp add: forecast_first_fetch e)
  note g1 = G_again [THEN conjunct1, THEN mp, OF t1, of offline_world]
  note g2 = G_again [THEN conjunct2, THEN mp, OF t2, of offline_world]
  note f1 = F_again [THEN conjunct1, THEN mp, OF t3, of offline_world]
  note f2 = F_again [THEN conjunct2, THEN mp, OF t4, of offline_world]
  show ?thesis
    using m1 m2 paris_first_fetch forecast_first_fetch r1 r2 t1 t2 t3 t4 g1 g2 f1 f2
    by (simp add: rq)
qed

section \<open>Missing arguments\<close>

lemma requests_attach_location [simp]:
  "requests (attach_location s k loc) = requests s"
  by (simp add: attach_location_def split: option.splits payload.splits)

lemma geocodeCity_requests:
  "geocodeCity w s city cnt = (r, s') \<Longrightarrow> \<exists>rest. requests s' = requests s @ rest"
  by (auto simp: geocodeCity_def Let_def await_def cache_set_def split: option.splits sum.splits)

lemma getWeatherForecast_requests:
  "getWeatherForecast w s lat lon days = (r, s') \<Longrightarrow> \<exists>rest. requests s' = requests s @ rest"
  by (auto simp: getWeatherForecast_def Let_def await_def cache_set_def
      split: option.splits sum.splits)

lemma analyzeCurrentWeather_requests:
  "analyzeCurrentWeather w s wd city = (r, s') \<Longrightarrow> \<exists>rest. requests s' = requests s @ rest"
  by (auto simp: analyzeCurrentWeather_def Let_def await_def split: sum.splits)

lemma get_weather_undefined_first_request:
  assumes miss: "cached s (geocode_key JUndefined (JNum 1)) (cacheTimeout * 6) = None"
  shows "\<exists>rest. requests (snd (handleGetWeather w s JUndefined)) =
           requests s @ GeoSearch JUndefined (JNum 1) # rest"
proof -
  let ?s1 = "await w s (GeoSearch JUndefined (JNum 1))"
  have r1: "requests ?s1 = requests s @ [GeoSearch JUndefined (JNum 1)]"
    by (simp add: await_def)
  obtain g s1 where g: "geocodeCity w s JUndefined (JNum 1) = (g, s1)"
    by (cases "geocodeCity w s JUndefined (JNum 1)")
  have s1: "requests s1 = requests s @ [GeoSearch JUndefined (JNum 1)]"
    using g miss
    by (auto simp: geocodeCity_def Let_def await_def cache_set_def split: sum.splits)
  obtain c s2 where c: "getWeatherForChat w s JUndefined False = (c, s2)"
    by (cases "getWeatherForChat w s JUndefined False")
  have "\<exists>rest. requests s2 = requests s1 @ rest"
    using c g
    by (auto simp: getWeatherForChat_def Let_def
        split: sum.splits payload.splits list.splits prod.splits
        dest: getWeatherForecast_requests)
  then obtain rest where s2: "requests s2 = requests s1 @ rest" by blast
  obtain h s3 where h: "handleGetWeather w s JUndefined = (h, s3)"
    by (cases "handleGetWeather w s JUndefined")
  have "\<exists>rest'. requests s3 = requests s2 @ rest'"
    using h c
    by (auto simp: handleGetWeather_def
        split: chat_result.splits prod.splits sum.splits if_splits
        dest: analyzeCurrentWeather_requests)
  then obtain rest' where "requests s3 = requests s2 @ rest'" by blast
  with s1 s2 h show ?thesis by simp
qed

lemma strict_get_weather:
  "callTool strict_world new_server ''get_weather'' [] =
     ((text_result ''Error calling tool get_weather: Failed to geocode undefined: Request failed with status code 400'')
        \<lparr>isError := Some True\<rparr>,
      await strict_world new_server (GeoSearch JUndefined (JNum 1)))"
  by (simp add: callTool_def dispatch_def arg_def handleGetWeather_def getWeatherForChat_def
      geocodeCity_def Let_def await_def error_result_def cached_def new_server_def
      strict_world_def sample_world_def)

text \<open>
  Claim C3 (a call of \<^verbatim>\<open>get_weather\<close> with an empty argument bag is answered with an
  error that names the missing parameter, and the data source is never contacted).  The
  code does not do this.  \<^verbatim>\<open>listTools\<close> advertises \<open>city\<close> as a required parameter
  of \<^verbatim>\<open>get_weather\<close>, yet \<^verbatim>\<open>callTool\<close> checks no argument: with an empty bag the
  handler is entered with \<open>city\<close> undefined, and on a server whose cache is empty the
  first thing the call does, whatever the collaborators are, is to send the geocoding
  search for \<open>undefined\<close> to the data source.  Against a geocoding endpoint that rejects
  a search without a name, the call has made that one request, and its result is the
  error "Failed to geocode undefined: Request failed with status code 400", in which the
  word \<open>city\<close> does not occur.
\<close>

theorem get_weather_empty_arguments:
  "map_of listTools_required ''get_weather'' = Some [''city'']
   \<and> dispatch w s ''get_weather'' [] = handleGetWeather w s JUndefined
   \<and> (\<exists>rest. requests (snd (callTool w new_server ''get_weather'' [])) =
                 GeoSearch JUndefined (JNum 1) # rest)
   \<and> requests (snd (callTool strict_world new_server ''get_weather'' [])) =
       [GeoSearch JUndefined (JNum 1)]
   \<and> isError (fst (callTool strict_world new_server ''get_weather'' [])) = Some True
   \<and> content (fst (callTool strict_world new_server ''get_weather'' [])) =
       [\<lparr>block_type = ''text'',
         block_text = ''Error calling tool get_weather: Failed to geocode undefined: Request failed with status code 400''\<rparr>]
   \<and> \<not> str_includes
         (block_text (hd (content (fst (callTool strict_world new_server ''get_weather'' [])))))
         ''city''"
proof -
  have 1: "map_of listTools_required ''get_weather'' = Some [''city'']"
    by (simp add: listTools_required_def)
  have 2: "dispatch w s ''get_weather'' [] = handleGetWeather w s JUndefined"
    by (simp add: dispatch_def arg_def)
  have m: "cached new_server (geocode_key JUndefined (JNum 1)) (cacheTimeout * 6) = None"
    by (simp add: cached_def new_server_def)
  have e: "requests new_server = []" by (simp add: new_server_def)
  have d: "dispatch w new_server ''get_weather'' [] = handleGetWeather w new_server JUndefined"
    by (simp add: dispatch_def arg_def)
  have q: "requests (snd (callTool w new_server ''get_weather'' [])) =
           requests (snd (handleGetWeather w new_server JUndefined))"
    by (simp add: callTool_def d split: prod.splits sum.splits)
  have 3: "\<exists>rest. requests (snd (callTool w new_server ''get_weather'' [])) =
                 GeoSearch JUndefined (JNum 1) # rest"
    using get_weather_undefined_first_request [OF m, of w] by (simp add: q e)
  have 4: "requests (snd (callTool strict_world new_server ''get_weather'' [])) =
       [GeoSearch JUndefined (JNum 1)]"
    and 5: "isError (fst (callTool strict_world new_server ''get_weather'' [])) = Some True"
    and 6: "content (fst (callTool strict_world new_server ''get_weather'' [])) =
       [\<lparr>block_type = ''text'',
         block_text = ''Error calling tool get_weather: Failed to geocode undefined: Request failed with status code 400''\<rparr>]"
    unfolding strict_get_weather by (simp_all add: await_def new_server_def text_result_def)
  have 7: "\<not> str_includes
         (block_text (hd (content (fst (callTool strict_world new_server ''get_weather'' [])))))
         ''city''"
    unfolding 6 by simp
  from 1 2 3 4 5 6 7 show ?thesis by (intro conjI)
qed


section \<open>Template fallback\<close>

lemma formatCurrent_nonempty:
  "formatCurrentWeatherForChat wd = Inr r \<Longrightarrow> response r \<noteq> []"
  by (auto simp: formatCurrentWeatherForChat_def Let_def split: option.splits)

lemma formatForecast_nonempty:
  "formatForecastForChat w wd = Inr r \<Longrightarrow> response r \<noteq> []"
  by (auto simp: formatForecastForChat_def Let_def split: option.splits)

lemma fallbackCurrent_nonempty: "fallbackCurrentWeatherResponse wd city \<noteq> []"
  by (simp add: fallbackCurrentWeatherResponse_def Let_def)

lemma fallbackForecast_nonempty: "fallbackForecastResponse wd city = Inr t \<Longrightarrow> t \<noteq> []"
  by (auto simp: fallbackForecastResponse_def Let_def split: list.splits)

lemma basic_format_nonempty: "basic_format w wd days = Inr t \<Longrightarrow> t \<noteq> []"
  by (auto simp: basic_format_def split: sum.splits if_splits
      dest: formatCurrent_nonempty formatForecast_nonempty)

lemma basic_format_located:
  "\<exists>t. basic_format w (wd\<lparr>location := Some loc\<rparr>) days = Inr t"
  by (simp add: basic_format_def formatCurrentWeatherForChat_def formatForecastForChat_def Let_def)

lemma handleGetWeather_down:
  assumes d: "down w" and g: "getWeatherForChat w s city False = (ChatOk r, s1)"
  shows "\<exists>s'. handleGetWeather w s city =
           (Inr (weather_result
                  (if claudeService w then fallbackCurrentWeatherResponse (chat_data r) (to_str city)
                   else response r)
                  (chat_data r) (chat_type r) (claudeService w)), s')"
proof (cases "claudeService w")
  case False
  with g show ?thesis by (simp add: handleGetWeather_def)
next
  case True
  with d obtain e where "messages_create w
      (requests (await w s1 (Completion (AnalyzeCurrent (chat_data r) city)))) = Inl e"
    unfolding down_def by blast
  with g True show ?thesis
    by (simp add: handleGetWeather_def analyzeCurrentWeather_def Let_def)
qed

lemma handleGetWeatherByCoords_default:
  "handleGetWeatherByCoords w s lat lon JUndefined = handleGetWeatherByCoords w s lat lon (JNum 1)"
  by (simp add: handleGetWeatherByCoords_def)

lemma getWeatherForChat_current:
  assumes g: "geocodeCity w s city (JNum 1) = (Inr (Locations (loc # rest)), s1)"
    and f: "getWeatherForecast w s1 (JNum (latitude loc)) (JNum (longitude loc)) (JNum 1) =
              (Inr (ForecastResult wd0), s2)"
  shows "\<exists>t s3. formatCurrentWeatherForChat (wd0\<lparr>location := Some loc\<rparr>) =
                  Inr \<lparr>response = t, chat_data = wd0\<lparr>location := Some loc\<rparr>, chat_type = ''current''\<rparr>
               \<and> t \<noteq> []
               \<and> getWeatherForChat w s city False =
                   (ChatOk \<lparr>response = t, chat_data = wd0\<lparr>location := Some loc\<rparr>,
                            chat_type = ''current''\<rparr>, s3)"
  using g f by (simp add: getWeatherForChat_def formatCurrentWeatherForChat_def Let_def)

lemma getWeatherForChat_forecast:
  assumes g: "geocodeCity w s city (JNum 1) = (Inr (Locations (loc # rest)), s1)"
    and f: "getWeatherForecast w s1 (JNum (latitude loc)) (JNum (longitude loc)) (JNum 7) =
              (Inr (ForecastResult wd0), s2)"
  shows "\<exists>t s3. formatForecastForChat w (wd0\<lparr>location := Some loc\<rparr>) =
                  Inr \<lparr>response = t, chat_data = wd0\<lparr>location := Some loc\<rparr>, chat_type = ''forecast''\<rparr>
               \<and> t \<noteq> []
               \<and> getWeatherForChat w s city True =
                   (ChatOk \<lparr>response = t, chat_data = wd0\<lparr>location := Some loc\<rparr>,
                            chat_type = ''forecast''\<rparr>, s3)"
  using g f by (simp add: getWeatherForChat_def formatForecastForChat_def Let_def)

lemma fallbackForecast_Inr_iff:
  "(\<exists>t. fallbackForecastResponse wd city = Inr t) \<longleftrightarrow> daily wd \<noteq> []"
  by (simp add: fallbackForecastResponse_def Let_def split: list.splits)

lemma handleGetWeather_fallback:
  assumes d: "down w"
    and g: "geocodeCity w s city (JNum 1) = (Inr (Locations (loc # rest)), s1)"
    and f: "getWeatherForecast w s1 (JNum (latitude loc)) (JNum (longitude loc)) (JNum 1) =
              (Inr (ForecastResult wd0), s2)"
  shows "\<exists>t s'. handleGetWeather w s city =
                  (Inr (weather_result t (wd0\<lparr>location := Some loc\<rparr>) ''current'' (claudeService w)), s')
     \<and> t \<noteq> []
     \<and> (claudeService w \<longrightarrow>
          t = fallbackCurrentWeatherResponse (wd0\<lparr>location := Some loc\<rparr>) (to_str city))
     \<and> (\<not> claudeService w \<longrightarrow>
          formatCurrentWeatherForChat (wd0\<lparr>location := Some loc\<rparr>) =
            Inr \<lparr>response = t, chat_data = wd0\<lparr>location := Some loc\<rparr>, chat_type = ''current''\<rparr>)"
proof -
  let ?wd = "wd0\<lparr>location := Some loc\<rparr>"
  from getWeatherForChat_current [OF g f] obtain t0 s3 where
    r: "formatCurrentWeatherForChat ?wd = Inr \<lparr>response = t0, chat_data = ?wd, chat_type = ''current''\<rparr>"
    and n: "t0 \<noteq> []"
    and c: "getWeatherForChat w s city False =
              (ChatOk \<lparr>response = t0, chat_data = ?wd, chat_type = ''current''\<rparr>, s3)"
    by blast
  from handleGetWeather_down [OF d c] obtain s' where
    h: "handleGetWeather w s city =
          (Inr (weather_result
                 (if claudeService w then fallbackCurrentWeatherResponse ?wd (to_str city) else t0)
                 ?wd ''current'' (claudeService w)), s')"
    by auto
  show ?thesis
  proof (cases "claudeService w")
    case True
    with h fallbackCurrent_nonempty [of ?wd "to_str city"] show ?thesis by simp
  next
    case False
    with h r n show ?thesis by simp
  qed
qed

lemma handleGetForecast_fallback:
  assumes d: "down w"
    and g: "geocodeCity w s city (JNum 1) = (Inr (Locations (loc # rest)), s1)"
    and f: "getWeatherForecast w s1 (JNum (latitude loc)) (JNum (longitude loc)) (JNum 7) =
              (Inr (ForecastResult wd0), s2)"
  shows "\<exists>t s'. handleGetForecast w s city days =
                  (Inr (weather_result t (wd0\<lparr>location := Some loc\<rparr>) ''forecast'' (claudeService w)), s')
     \<and> t \<noteq> []
     \<and> (claudeService w \<and> daily wd0 \<noteq> [] \<longrightarrow>
          fallbackForecastResponse (wd0\<lparr>location := Some loc\<rparr>) (to_str city) = Inr t)
     \<and> (\<not> claudeService w \<or> daily wd0 = [] \<longrightarrow>
          formatForecastForChat w (wd0\<lparr>location := Some loc\<rparr>) =
            Inr \<lparr>response = t, chat_data = wd0\<lparr>location := Some loc\<rparr>, chat_type = ''forecast''\<rparr>)"
proof -
  let ?wd = "wd0\<lparr>location := Some loc\<rparr>"
  from getWeatherForChat_forecast [OF g f] obtain t0 s3 where
    r: "formatForecastForChat w ?wd = Inr \<lparr>response = t0, chat_data = ?wd, chat_type = ''forecast''\<rparr>"
    and n: "t0 \<noteq> []"
    and c: "getWeatherForChat w s city True =
              (ChatOk \<lparr>response = t0, chat_data = ?wd, chat_type = ''forecast''\<rparr>, s3)"
    by blast
  show ?thesis
  proof (cases "claudeService w")
    case False
    with c r n show ?thesis by (simp add: handleGetForecast_def)
  next
    case True
    with d obtain e where m: "messages_create w
        (requests (await w s3 (Completion (AnalyzeForecast ?wd city)))) = Inl e"
      unfolding down_def by blast
    show ?thesis
    proof (cases "fallbackForecastResponse ?wd (to_str city)")
      case (Inl x)
      then have "daily wd0 = []"
        using fallbackForecast_Inr_iff [of ?wd "to_str city"] by simp
      with Inl c True m r n show ?thesis
        by (simp add: handleGetForecast_def analyzeWeatherForecast_def Let_def)
    next
      case (Inr t)
      then have "daily wd0 \<noteq> []"
        using fallbackForecast_Inr_iff [of ?wd "to_str city"] by auto
      with Inr c True m fallbackForecast_nonempty [OF Inr] show ?thesis
        by (simp add: handleGetForecast_def analyzeWeatherForecast_def Let_def)
    qed
  qed
qed

lemma handleGetWeatherByCoords_fallback':
  assumes d: "down w" and n: "days \<noteq> JUndefined"
    and g: "getWeatherForecast w s (JNum la) (JNum lo) days = (Inr (ForecastResult wd0), s1)"
    and l: "loc = \<lparr>name = ''Location ('' @ toFixed 2 la @ '', '' @ toFixed 2 lo @ '')'',
                   country = None, admin1 = None, latitude = la, longitude = lo,
                   timezone = None, population = None, elevation = None\<rparr>"
    and p: "place = ''coordinates '' @ toFixed 2 la @ '', '' @ toFixed 2 lo"
  shows "\<exists>t s'. handleGetWeatherByCoords w s (JNum la) (JNum lo) days =
                  (Inr (weather_result t (wd0\<lparr>location := Some loc\<rparr>) (coords_type days)
                          (claudeService w)), s')
     \<and> t \<noteq> []
     \<and> (claudeService w \<and> days = JNum 1 \<longrightarrow>
          t = fallbackCurrentWeatherResponse (wd0\<lparr>location := Some loc\<rparr>) place)
     \<and> (claudeService w \<and> days \<noteq> JNum 1 \<and> daily wd0 \<noteq> [] \<longrightarrow>
          fallbackForecastResponse (wd0\<lparr>location := Some loc\<rparr>) place = Inr t)
     \<and> (\<not> claudeService w \<or> (days \<noteq> JNum 1 \<and> daily wd0 = []) \<longrightarrow>
          basic_format w (wd0\<lparr>location := Some loc\<rparr>) days = Inr t)"
proof -
  let ?wd = "wd0\<lparr>location := Some loc\<rparr>"
  let ?s2 = "attach_location s1 (forecast_key (JNum la) (JNum lo) days) loc"
  obtain b where b: "basic_format w ?wd days = Inr b"
    using basic_format_located by blast
  have bn: "b \<noteq> []" using b by (rule basic_format_nonempty)
  show ?thesis
  proof (cases "claudeService w")
    case False
    with g n b bn l show ?thesis
      by (simp add: handleGetWeatherByCoords_def Let_def)
  next
    case True
    with d obtain e where m: "messages_create w
        (requests (await w ?s2 (Completion (AnalyzeLocation ?wd (JNum la) (JNum lo) days)))) = Inl e"
      unfolding down_def by blast
    show ?thesis
    proof (cases "days = JNum 1")
      case one: True
      with g n True m l p fallbackCurrent_nonempty [of ?wd place] show ?thesis
        by (simp add: handleGetWeatherByCoords_def analyzeLocationWeather_def Let_def)
    next
      case more: False
      show ?thesis
      proof (cases "fallbackForecastResponse ?wd place")
        case (Inl x)
        then have "daily wd0 = []"
          using fallbackForecast_Inr_iff [of ?wd place] by simp
        with Inl g n True m l p more b bn show ?thesis
          by (simp add: handleGetWeatherByCoords_def analyzeLocationWeather_def Let_def)
      next
        case (Inr t)
        then have "daily wd0 \<noteq> []"
          using fallbackForecast_Inr_iff [of ?wd place] by auto
        with Inr g n True m l p more fallbackForecast_nonempty [OF Inr] show ?thesis
          by (simp add: handleGetWeatherByCoords_def analyzeLocationWeather_def Let_def)
      qed
    qed
  qed
qed

text \<open>
  Claim C8, as the code has it.  Let the completion service be down: not configured, or
  failing every request.  Then a call of a weather handler whose lookups succeed returns a
  result without the error flag, holding one text block that is not empty and is the
  text of a template, a function of the weather data and the place asked for.  The
  lookups succeed when the geocoding lookup returns at least one place and the forecast
  lookup for its coordinates returns a forecast; for \<^verbatim>\<open>get_weather_by_coords\<close>, when
  the coordinates are numbers and the forecast lookup returns a forecast.  The text is
  \<^item> for \<^verbatim>\<open>get_weather\<close>: \<^verbatim>\<open>fallbackCurrentWeatherResponse\<close> when the completion
    request fails, and the response of \<^verbatim>\<open>formatCurrentWeatherForChat\<close> when the service
    is not configured;
  \<^item> for \<^verbatim>\<open>get_forecast\<close>: \<^verbatim>\<open>fallbackForecastResponse\<close> when the completion request
    fails and the forecast has a day, and the response of \<^verbatim>\<open>formatForecastForChat\<close>
    when the service is not configured or the forecast has no day;
  \<^item> for \<^verbatim>\<open>get_weather_by_coords\<close>: when the completion request fails,
    \<^verbatim>\<open>fallbackCurrentWeatherResponse\<close> for one day and \<^verbatim>\<open>fallbackForecastResponse\<close>
    for more, if the forecast has a day; the basic formatting when the service is not
    configured or that forecast has no day.

  The fallback never makes the call fail.
\<close>

theorem fallback_never_fails:
  assumes "\<not> claudeService w \<or> (\<forall>h. \<exists>e. messages_create w h = Inl e)"
  shows
    "(\<forall>loc rest s1 wd0 s2.
        geocodeCity w s (arg args ''city'') (JNum 1) = (Inr (Locations (loc # rest)), s1) \<longrightarrow>
        getWeatherForecast w s1 (JNum (latitude loc)) (JNum (longitude loc)) (JNum 1) =
          (Inr (ForecastResult wd0), s2) \<longrightarrow>
        (\<exists>t. fst (callTool w s ''get_weather'' args) =
                weather_result t (wd0\<lparr>location := Some loc\<rparr>) ''current'' (claudeService w)
            \<and> isError (fst (callTool w s ''get_weather'' args)) = None
            \<and> content (fst (callTool w s ''get_weather'' args)) =
                [\<lparr>block_type = ''text'', block_text = t\<rparr>]
            \<and> t \<noteq> []
            \<and> (claudeService w \<longrightarrow>
                 t = fallbackCurrentWeatherResponse (wd0\<lparr>location := Some loc\<rparr>)
                       (to_str (arg args ''city'')))
            \<and> (\<not> claudeService w \<longrightarrow>
                 formatCurrentWeatherForChat (wd0\<lparr>location := Some loc\<rparr>) =
                   Inr \<lparr>response = t, chat_data = wd0\<lparr>location := Some loc\<rparr>,
                        chat_type = ''current''\<rparr>)))
   \<and> (\<forall>loc rest s1 wd0 s2.
        geocodeCity w s (arg args ''city'') (JNum 1) = (Inr (Locations (loc # rest)), s1) \<longrightarrow>
        getWeatherForecast w s1 (JNum (latitude loc)) (JNum (longitude loc)) (JNum 7) =
          (Inr (ForecastResult wd0), s2) \<longrightarrow>
        (\<exists>t. fst (callTool w s ''get_forecast'' args) =
                weather_result t (wd0\<lparr>location := Some loc\<rparr>) ''forecast'' (claudeService w)
            \<and> isError (fst (callTool w s ''get_forecast'' args)) = None
            \<and> content (fst (callTool w s ''get_forecast'' args)) =
                [\<lparr>block_type = ''text'', block_text = t\<rparr>]
            \<and> t \<noteq> []
            \<and> (claudeService w \<and> daily wd0 \<noteq> [] \<longrightarrow>
                 fallbackForecastResponse (wd0\<lparr>location := Some loc\<rparr>)
                   (to_str (arg args ''city'')) = Inr t)
            \<and> (\<not> claudeService w \<or> daily wd0 = [] \<longrightarrow>
                 formatForecastForChat w (wd0\<lparr>location := Some loc\<rparr>) =
                   Inr \<lparr>response = t, chat_data = wd0\<lparr>location := Some loc\<rparr>,
                        chat_type = ''forecast''\<rparr>)))
   \<and> (\<forall>la lo days loc place wd0 s1.
        arg args ''latitude'' = JNum la \<longrightarrow> arg args ''longitude'' = JNum lo \<longrightarrow>
        days = (if arg args ''days'' = JUndefined then JNum 1 else arg args ''days'') \<longrightarrow>
        getWeatherForecast w s (JNum la) (JNum lo) days = (Inr (ForecastResult wd0), s1) \<longrightarrow>
        loc = \<lparr>name = ''Location ('' @ toFixed 2 la @ '', '' @ toFixed 2 lo @ '')'',
               country = None, admin1 = None, latitude = la, longitude = lo,
               timezone = None, population = None, elevation = None\<rparr> \<longrightarrow>
        place = ''coordinates '' @ toFixed 2 la @ '', '' @ toFixed 2 lo \<longrightarrow>
        (\<exists>t. fst (callTool w s ''get_weather_by_coords'' args) =
                weather_result t (wd0\<lparr>location := Some loc\<rparr>) (coords_type days) (claudeService w)
            \<and> isError (fst (callTool w s ''get_weather_by_coords'' args)) = None
            \<and> content (fst (callTool w s ''get_weather_by_coords'' args)) =
                [\<lparr>block_type = ''text'', block_text = t\<rparr>]
            \<and> t \<noteq> []
            \<and> (claudeService w \<and> days = JNum 1 \<longrightarrow>
                 t = fallbackCurrentWeatherResponse (wd0\<lparr>location := Some loc\<rparr>) place)
            \<and> (claudeService w \<and> days \<noteq> JNum 1 \<and> daily wd0 \<noteq> [] \<longrightarrow>
                 fallbackForecastResponse (wd0\<lparr>location := Some loc\<rparr>) place = Inr t)
            \<and> (\<not> claudeService w \<or> (days \<noteq> JNum 1 \<and> daily wd0 = []) \<longrightarrow>
                 basic_format w (wd0\<lparr>location := Some loc\<rparr>) days = Inr t)))"
proof -
  have d: "down w" using assms by (simp add: down_def)
  have 1: "\<exists>t. fst (callTool w s ''get_weather'' args) =
                weather_result t (wd0\<lparr>location := Some loc\<rparr>) ''current'' (claudeService w)
            \<and> isError (fst (callTool w s ''get_weather'' args)) = None
            \<and> content (fst (callTool w s ''get_weather'' args)) =
                [\<lparr>block_type = ''text'', block_text = t\<rparr>]
            \<and> t \<noteq> []
            \<and> (claudeService w \<longrightarrow>
                 t = fallbackCurrentWeatherResponse (wd0\<lparr>location := Some loc\<rparr>)
                       (to_str (arg args ''city'')))
            \<and> (\<not> claudeService w \<longrightarrow>
                 formatCurrentWeatherForChat (wd0\<lparr>location := Some loc\<rparr>) =
                   Inr \<lparr>response = t, chat_data = wd0\<lparr>location := Some loc\<rparr>,
                        chat_type = ''current''\<rparr>)"
    if g: "geocodeCity w s (arg args ''city'') (JNum 1) = (Inr (Locations (loc # rest)), s1)"
      and f: "getWeatherForecast w s1 (JNum (latitude loc)) (JNum (longitude loc)) (JNum 1) =
                (Inr (ForecastResult wd0), s2)" for loc rest s1 wd0 s2
  proof -
    from handleGetWeather_fallback [OF d g f] obtain t s' where
      h: "handleGetWeather w s (arg args ''city'') =
            (Inr (weather_result t (wd0\<lparr>location := Some loc\<rparr>) ''current'' (claudeService w)), s')"
      and r: "t \<noteq> []"
        "claudeService w \<longrightarrow>
           t = fallbackCurrentWeatherResponse (wd0\<lparr>location := Some loc\<rparr>)
                 (to_str (arg args ''city''))"
        "\<not> claudeService w \<longrightarrow>
           formatCurrentWeatherForChat (wd0\<lparr>location := Some loc\<rparr>) =
             Inr \<lparr>response = t, chat_data = wd0\<lparr>location := Some loc\<rparr>, chat_type = ''current''\<rparr>"
      by blast
    have c: "fst (callTool w s ''get_weather'' args) =
               weather_result t (wd0\<lparr>location := Some loc\<rparr>) ''current'' (claudeService w)"
      using h by (simp add: callTool_def dispatch_def)
    show ?thesis
      apply (rule exI [of _ t])
      unfolding c using r by simp
  qed
  have 2: "\<exists>t. fst (callTool w s ''get_forecast'' args) =
                weather_result t (wd0\<lparr>location := Some loc\<rparr>) ''forecast'' (claudeService w)
            \<and> isError (fst (callTool w s ''get_forecast'' args)) = None
            \<and> content (fst (callTool w s ''get_forecast'' args)) =
                [\<lparr>block_type = ''text'', block_text = t\<rparr>]
            \<and> t \<noteq> []
            \<and> (claudeService w \<and> daily wd0 \<noteq> [] \<longrightarrow>
                 fallbackForecastResponse (wd0\<lparr>location := Some loc\<rparr>)
                   (to_str (arg args ''city'')) = Inr t)
            \<and> (\<not> claudeService w \<or> daily wd0 = [] \<longrightarrow>
                 formatForecastForChat w (wd0\<lparr>location := Some loc\<rparr>) =
                   Inr \<lparr>response = t, chat_data = wd0\<lparr>location := Some loc\<rparr>,
                        chat_type = ''forecast''\<rparr>)"
    if g: "geocodeCity w s (arg args ''city'') (JNum 1) = (Inr (Locations (loc # rest)), s1)"
      and f: "getWeatherForecast w s1 (JNum (latitude loc)) (JNum (longitude loc)) (JNum 7) =
                (Inr (ForecastResult wd0), s2)" for loc rest s1 wd0 s2
  proof -
    from handleGetForecast_fallback [OF d g f, of "arg args ''days''"] obtain t s' where
      h: "handleGetForecast w s (arg args ''city'') (arg args ''days'') =
            (Inr (weather_result t (wd0\<lparr>location := Some loc\<rparr>) ''forecast'' (claudeService w)), s')"
      and r: "t \<noteq> []"
        "claudeService w \<and> daily wd0 \<noteq> [] \<longrightarrow>
           fallbackForecastResponse (wd0\<lparr>location := Some loc\<rparr>) (to_str (arg args ''city'')) = Inr t"
        "\<not> claudeService w \<or> daily wd0 = [] \<longrightarrow>
           formatForecastForChat w (wd0\<lparr>location := Some loc\<rparr>) =
             Inr \<lparr>response = t, chat_data = wd0\<lparr>location := Some loc\<rparr>, chat_type = ''forecast''\<rparr>"
      by blast
    have c: "fst (callTool w s ''get_forecast'' args) =
               weather_result t (wd0\<lparr>location := Some loc\<rparr>) ''forecast'' (claudeService w)"
      using h by (simp add: callTool_def dispatch_def)
    show ?thesis
      apply (rule exI [of _ t])
      unfolding c using r by simp
  qed
  have 3: "\<exists>t. fst (callTool w s ''get_weather_by_coords'' args) =
                weather_result t (wd0\<lparr>location := Some loc\<rparr>) (coords_type days) (claudeService w)
            \<and> isError (fst (callTool w s ''get_weather_by_coords'' args)) = None
            \<and> content (fst (callTool w s ''get_weather_by_coords'' args)) =
                [\<lparr>block_type = ''text'', block_text = t\<rparr>]
            \<and> t \<noteq> []
            \<and> (claudeService w \<and> days = JNum 1 \<longrightarrow>
                 t = fallbackCurrentWeatherResponse (wd0\<lparr>location := Some loc\<rparr>) place)
            \<and> (claudeService w \<and> days \<noteq> JNum 1 \<and> daily wd0 \<noteq> [] \<longrightarrow>
                 fallbackForecastResponse (wd0\<lparr>location := Some loc\<rparr>) place = Inr t)
            \<and> (\<not> claudeService w \<or> (days \<noteq> JNum 1 \<and> daily wd0 = []) \<longrightarrow>
                 basic_format w (wd0\<lparr>location := Some loc\<rparr>) days = Inr t)"
    if a: "arg args ''latitude'' = JNum la" "arg args ''longitude'' = JNum lo"
      and k: "days = (if arg args ''days'' = JUndefined then JNum 1 else arg args ''days'')"
      and g: "getWeatherForecast w s (JNum la) (JNum lo) days = (Inr (ForecastResult wd0), s1)"
      and l: "loc = \<lparr>name = ''Location ('' @ toFixed 2 la @ '', '' @ toFixed 2 lo @ '')'',
                     country = None, admin1 = None, latitude = la, longitude = lo,
                     timezone = None, population = None, elevation = None\<rparr>"
      and p: "place = ''coordinates '' @ toFixed 2 la @ '', '' @ toFixed 2 lo"
    for la lo days loc place wd0 s1
  proof -
    have n: "days \<noteq> JUndefined" using k by simp
    have e: "handleGetWeatherByCoords w s (JNum la) (JNum lo) (arg args ''days'') =
             handleGetWeatherByCoords w s (JNum la) (JNum lo) days"
      using k by (simp add: handleGetWeatherByCoords_default)
    from handleGetWeatherByCoords_fallback' [OF d n g l p] obtain t s' where
      h: "handleGetWeatherByCoords w s (JNum la) (JNum lo) days =
            (Inr (weather_result t (wd0\<lparr>location := Some loc\<rparr>) (coords_type days)
                    (claudeService w)), s')"
      and r: "t \<noteq> []"
        "claudeService w \<and> days = JNum 1 \<longrightarrow>
           t = fallbackCurrentWeatherResponse (wd0\<lparr>location := Some loc\<rparr>) place"
        "claudeService w \<and> days \<noteq> JNum 1 \<and> daily wd0 \<noteq> [] \<longrightarrow>
           fallbackForecastResponse (wd0\<lparr>location := Some loc\<rparr>) place = Inr t"
        "\<not> claudeService w \<or> (days \<noteq> JNum 1 \<and> daily wd0 = []) \<longrightarrow>
           basic_format w (wd0\<lparr>location := Some loc\<rparr>) days = Inr t"
      by blast
    have c: "fst (callTool w s ''get_weather_by_coords'' args) =
               weather_result t (wd0\<lparr>location := Some loc\<rparr>) (coords_type days) (claudeService w)"
      using h a e by (simp add: callTool_def dispatch_def)
    show ?thesis
      apply (rule exI [of _ t])
      unfolding c using r by simp
  qed
  show ?thesis
    apply (intro conjI allI impI)
    subgoal for loc rest s1 wd0 s2 by (rule 1)
    subgoal for loc rest s1 wd0 s2 by (rule 2)
    subgoal for la lo days loc place wd0 s1 by (rule 3)
    done
qed

text \<open>
  Claim C8 as stated speaks of every weather-handler call in which the completion service
  is unavailable.  It fails for a call whose weather data cannot be obtained: with the
  service not configured and a city that geocoding does not find, the result has the
  error flag set.
\<close>

theorem fallback_never_fails_counterexample:
  "\<not> claudeService nowhere_world
   \<and> isError (fst (callTool nowhere_world new_server ''get_weather'' [(''city'', JStr ''Atlantis'')]))
       = Some True
   \<and> content (fst (callTool nowhere_world new_server ''get_weather'' [(''city'', JStr ''Atlantis'')])) =
       [\<lparr>block_type = ''text'',
         block_text = ''Error calling tool get_weather: Could not find location for \"Atlantis\". Please check the city name and try again.''\<rparr>]"
  by (simp add: callTool_def dispatch_def arg_def handleGetWeather_def getWeatherForChat_def
      geocodeCity_def Let_def await_def error_result_def cached_def new_server_def cache_set_def
      nowhere_world_def sample_world_def text_result_def)

lemma geocodeCity_claudeService [simp]:
  "geocodeCity (w\<lparr>claudeService := c\<rparr>) s city cnt = geocodeCity w s city cnt"
  by (simp add: geocodeCity_def await_def Let_def split: option.splits)

lemma getWeatherForecast_claudeService [simp]:
  "getWeatherForecast (w\<lparr>claudeService := c\<rparr>) s lat lon days = getWeatherForecast w s lat lon days"
  by (simp add: getWeatherForecast_def await_def Let_def split: option.splits)

lemma paris_forecast_fetch:
  "d = 1 \<or> d = 7 \<Longrightarrow>
   fst (getWeatherForecast sample_world paris_cached (JNum 49) (JNum 2) (JNum d)) =
     Inr (ForecastResult mild_day)"
  by (auto simp add: paris_cached_def geocodeCity_def getWeatherForecast_def Let_def cached_def
      new_server_def sample_world_def await_def cache_set_def mild_day_def geocode_key_def
      forecast_key_def)

lemma paris_chat_text:
  "formatCurrentWeatherForChat (mild_day\<lparr>location := Some paris\<rparr>) =
     Inr \<lparr>response =
         ''**Current Weather in Paris, Ile-de-France, France**\<newline>\<newline>''
         @ thermometer @ '' **Temperature:** 20'' @ deg @ ''C (feels like 19'' @ deg @ ''C)\<newline>''
         @ cloud @ '' **Condition:** Partly cloudy\<newline>''
         @ droplet @ '' **Humidity:** 60%\<newline>''
         @ wind_face @ '' **Wind:** 12 km/h (gusts up to 25 km/h)\<newline>''
         @ bar_chart @ '' **Pressure:** 1015 hPa\<newline>''
         @ cloud @ '' **Cloud Cover:** 40%\<newline>''
         @ clock_face @ '' **Time of Day:** '' @ sun @ '' Day\<newline>''
         @ ''\<newline>'' @ pushpin @ '' **Location:** 49.00'' @ deg @ '', 2.00'' @ deg
         @ '' (42m elevation)'',
       chat_data = mild_day\<lparr>location := Some paris\<rparr>, chat_type = ''current''\<rparr>"
  by (simp add: formatCurrentWeatherForChat_def Let_def mild_day_def paris_def place_line_def
      truthy_str_def truthy_num_def opt_str_def opt_num_def show_int_def show_nat.simps
      digit_char_def getWeatherDescription_def weatherCodes_def toFixed_def numeral_2_eq_2)

lemma paris_fallback_text:
  "fallbackCurrentWeatherResponse (mild_day\<lparr>location := Some paris\<rparr>) ''Paris'' =
     ''The current weather in Paris is 20'' @ deg
     @ ''C with partly cloudy. Pleasant weather overall!''"
  by (simp add: fallbackCurrentWeatherResponse_def Let_def mild_day_def show_int_def
      show_nat.simps digit_char_def getWeatherDescription_def weatherCodes_def toLowerCase_def
      lower_char_def)

lemma paris_forecast_chat_text:
  "formatForecastForChat (sample_world\<lparr>claudeService := c\<rparr>) (mild_day\<lparr>location := Some paris\<rparr>) =
     Inr \<lparr>response =
         ''**7-Day Weather Forecast for Paris, Ile-de-France, France**\<newline>\<newline>''
         @ calendar @ '' **Today, Jun 1**\<newline>''
         @ ''   '' @ thermometer @ '' 14'' @ deg @ '' - 23'' @ deg @ ''C\<newline>''
         @ ''   '' @ cloud @ '' Partly cloudy\<newline>''
         @ ''   '' @ dash_symbol @ '' Wind up to 18 km/h\<newline>''
         @ ''\<newline>'',
       chat_data = mild_day\<lparr>location := Some paris\<rparr>, chat_type = ''forecast''\<rparr>"
  by (simp add: formatForecastForChat_def forecast_day_def Let_def mild_day_def paris_def
      place_line_def sample_world_def truthy_str_def opt_str_def show_int_def show_nat.simps
      digit_char_def getWeatherDescription_def weatherCodes_def)

lemma paris_forecast_fallback_text:
  "fallbackForecastResponse (mild_day\<lparr>location := Some paris\<rparr>) ''Paris'' =
     Inr (''The forecast for Paris shows 14-23'' @ deg
          @ ''C today with partly cloudy. Looks like a dry week ahead!'')"
  by (simp add: fallbackForecastResponse_def day_range_def Let_def mild_day_def show_int_def
      show_nat.simps digit_char_def getWeatherDescription_def weatherCodes_def toLowerCase_def
      lower_char_def)

lemma coords_chat_text:
  "loc = \<lparr>name = ''Location ('' @ toFixed 2 49 @ '', '' @ toFixed 2 2 @ '')'',
          country = None, admin1 = None, latitude = 49, longitude = 2,
          timezone = None, population = None, elevation = None\<rparr> \<Longrightarrow>
   basic_format w (mild_day\<lparr>location := Some loc\<rparr>) (JNum 1) =
     Inr (''**Current Weather in Location (49.00, 2.00), undefined**\<newline>\<newline>''
         @ thermometer @ '' **Temperature:** 20'' @ deg @ ''C (feels like 19'' @ deg @ ''C)\<newline>''
         @ cloud @ '' **Condition:** Partly cloudy\<newline>''
         @ droplet @ '' **Humidity:** 60%\<newline>''
         @ wind_face @ '' **Wind:** 12 km/h (gusts up to 25 km/h)\<newline>''
         @ bar_chart @ '' **Pressure:** 1015 hPa\<newline>''
         @ cloud @ '' **Cloud Cover:** 40%\<newline>''
         @ clock_face @ '' **Time of Day:** '' @ sun @ '' Day\<newline>''
         @ ''\<newline>'' @ pushpin @ '' **Location:** 49.00'' @ deg @ '', 2.00'' @ deg)"
  by (simp add: basic_format_def formatCurrentWeatherForChat_def Let_def mild_day_def place_line_def
      truthy_str_def truthy_num_def opt_str_def opt_num_def show_int_def show_nat.simps
      digit_char_def getWeatherDescription_def weatherCodes_def toFixed_def numeral_2_eq_2)

lemma coords_fallback_text:
  "fallbackCurrentWeatherResponse (mild_day\<lparr>location := l\<rparr>)
     (''coordinates '' @ toFixed 2 49 @ '', '' @ toFixed 2 2) =
     ''The current weather in coordinates 49.00, 2.00 is 20'' @ deg
     @ ''C with partly cloudy. Pleasant weather overall!''"
  by (simp add: fallbackCurrentWeatherResponse_def Let_def mild_day_def show_int_def
      show_nat.simps digit_char_def getWeatherDescription_def weatherCodes_def toLowerCase_def
      lower_char_def toFixed_def numeral_2_eq_2)

theorem fallback_never_fails_witness:
  "\<not> claudeService sample_world
   \<and> (\<forall>h. \<exists>e. messages_create (sample_world\<lparr>claudeService := True\<rparr>) h = Inl e)
   \<and> geocodeCity sample_world new_server (JStr ''Paris'') (JNum 1) =
       (Inr (Locations [paris]), paris_cached)
   \<and> fst (getWeatherForecast sample_world paris_cached (JNum 49) (JNum 2) (JNum 1)) =
       Inr (ForecastResult mild_day)
   \<and> fst (getWeatherForecast sample_world paris_cached (JNum 49) (JNum 2) (JNum 7)) =
       Inr (ForecastResult mild_day)
   \<and> getWeatherForecast sample_world new_server (JNum 49) (JNum 2) (JNum 1) =
       (Inr (ForecastResult mild_day), forecast_cached)
   \<and> isError (fst (callTool sample_world new_server ''get_weather'' [(''city'', JStr ''Paris'')]))
       = None
   \<and> content (fst (callTool sample_world new_server ''get_weather'' [(''city'', JStr ''Paris'')])) =
       [\<lparr>block_type = ''text'',
         block_text =
           ''**Current Weather in Paris, Ile-de-France, France**\<newline>\<newline>''
           @ thermometer @ '' **Temperature:** 20'' @ deg @ ''C (feels like 19'' @ deg @ ''C)\<newline>''
           @ cloud @ '' **Condition:** Partly cloudy\<newline>''
           @ droplet @ '' **Humidity:** 60%\<newline>''
           @ wind_face @ '' **Wind:** 12 km/h (gusts up to 25 km/h)\<newline>''
           @ bar_chart @ '' **Pressure:** 1015 hPa\<newline>''
           @ cloud @ '' **Cloud Cover:** 40%\<newline>''
           @ clock_face @ '' **Time of Day:** '' @ sun @ '' Day\<newline>''
           @ ''\<newline>'' @ pushpin @ '' **Location:** 49.00'' @ deg @ '', 2.00'' @ deg
           @ '' (42m elevation)''\<rparr>]
   \<and> isError (fst (callTool (sample_world\<lparr>claudeService := True\<rparr>) new_server ''get_weather''
                     [(''city'', JStr ''Paris'')])) = None
   \<and> content (fst (callTool (sample_world\<lparr>claudeService := True\<rparr>) new_server ''get_weather''
                     [(''city'', JStr ''Paris'')])) =
       [\<lparr>block_type = ''text'',
         block_text = ''The current weather in Paris is 20'' @ deg
                      @ ''C with partly cloudy. Pleasant weather overall!''\<rparr>]
   \<and> isError (fst (callTool sample_world new_server ''get_forecast'' [(''city'', JStr ''Paris'')]))
       = None
   \<and> content (fst (callTool sample_world new_server ''get_forecast'' [(''city'', JStr ''Paris'')])) =
       [\<lparr>block_type = ''text'',
         block_text =
           ''**7-Day Weather Forecast for Paris, Ile-de-France, France**\<newline>\<newline>''
           @ calendar @ '' **Today, Jun 1**\<newline>''
           @ ''   '' @ thermometer @ '' 14'' @ deg @ '' - 23'' @ deg @ ''C\<newline>''
           @ ''   '' @ cloud @ '' Partly cloudy\<newline>''
           @ ''   '' @ dash_symbol @ '' Wind up to 18 km/h\<newline>''
           @ ''\<newline>''\<rparr>]
   \<and> isError (fst (callTool (sample_world\<lparr>claudeService := True\<rparr>) new_server ''get_forecast''
                     [(''city'', JStr ''Paris'')])) = None
   \<and> content (fst (callTool (sample_world\<lparr>claudeService := True\<rparr>) new_server ''get_forecast''
                     [(''city'', JStr ''Paris'')])) =
       [\<lparr>block_type = ''text'',
         block_text = ''The forecast for Paris shows 14-23'' @ deg
                      @ ''C today with partly cloudy. Looks like a dry week ahead!''\<rparr>]
   \<and> isError (fst (callTool sample_world new_server ''get_weather_by_coords''
                     [(''latitude'', JNum 49), (''longitude'', JNum 2)])) = None
   \<and> content (fst (callTool sample_world new_server ''get_weather_by_coords''
                     [(''latitude'', JNum 49), (''longitude'', JNum 2)])) =
       [\<lparr>block_type = ''text'',
         block_text =
           ''**Current Weather in Location (49.00, 2.00), undefined**\<newline>\<newline>''
           @ thermometer @ '' **Temperature:** 20'' @ deg @ ''C (feels like 19'' @ deg @ ''C)\<newline>''
           @ cloud @ '' **Condition:** Partly cloudy\<newline>''
           @ droplet @ '' **Humidity:** 60%\<newline>''
           @ wind_face @ '' **Wind:** 12 km/h (gusts up to 25 km/h)\<newline>''
           @ bar_chart @ '' **Pressure:** 1015 hPa\<newline>''
           @ cloud @ '' **Cloud Cover:** 40%\<newline>''
           @ clock_face @ '' **Time of Day:** '' @ sun @ '' Day\<newline>''
           @ ''\<newline>'' @ pushpin @ '' **Location:** 49.00'' @ deg @ '', 2.00'' @ deg\<rparr>]
   \<and> isError (fst (callTool (sample_world\<lparr>claudeService := True\<rparr>) new_server
                     ''get_weather_by_coords''
                     [(''latitude'', JNum 49), (''longitude'', JNum 2)])) = None
   \<and> content (fst (callTool (sample_world\<lparr>claudeService := True\<rparr>) new_server
                     ''get_weather_by_coords''
                     [(''latitude'', JNum 49), (''longitude'', JNum 2)])) =
       [\<lparr>block_type = ''text'',
         block_text = ''The current weather in coordinates 49.00, 2.00 is 20'' @ deg
                      @ ''C with partly cloudy. Pleasant weather overall!''\<rparr>]"
proof -
  let ?on = "sample_world\<lparr>claudeService := True\<rparr>"
  let ?args = "[(''city'', JStr ''Paris'')]"
  let ?coords = "[(''latitude'', JNum 49), (''longitude'', JNum 2)]"
  let ?S1 = "snd (getWeatherForecast sample_world paris_cached (JNum 49) (JNum 2) (JNum 1))"
  let ?S7 = "snd (getWeatherForecast sample_world paris_cached (JNum 49) (JNum 2) (JNum 7))"
  have off: "\<not> claudeService sample_world" by (simp add: sample_world_def)
  have on: "claudeService ?on" by simp
  have m: "\<forall>h. \<exists>e. messages_create ?on h = Inl e" by (simp add: sample_world_def)
  have h0: "\<not> claudeService sample_world \<or> (\<forall>h. \<exists>e. messages_create sample_world h = Inl e)"
    using off by simp
  have h1: "\<not> claudeService ?on \<or> (\<forall>h. \<exists>e. messages_create ?on h = Inl e)"
    using m by simp
  have a: "arg ?args ''city'' = JStr ''Paris''" by (simp add: arg_def)
  have l: "latitude paris = 49" "longitude paris = 2" by (simp_all add: paris_def)
  have d: "daily mild_day \<noteq> []" by (simp add: mild_day_def)
  have f1: "fst (getWeatherForecast sample_world paris_cached (JNum 49) (JNum 2) (JNum 1)) =
              Inr (ForecastResult mild_day)"
    and f7: "fst (getWeatherForecast sample_world paris_cached (JNum 49) (JNum 2) (JNum 7)) =
              Inr (ForecastResult mild_day)"
    by (simp_all add: paris_forecast_fetch)
  have q1: "getWeatherForecast sample_world paris_cached (JNum (latitude paris))
              (JNum (longitude paris)) (JNum 1) = (Inr (ForecastResult mild_day), ?S1)"
    unfolding l using f1 by (simp add: prod_eq_iff)
  have q7: "getWeatherForecast sample_world paris_cached (JNum (latitude paris))
              (JNum (longitude paris)) (JNum 7) = (Inr (ForecastResult mild_day), ?S7)"
    unfolding l using f7 by (simp add: prod_eq_iff)
  have g0: "geocodeCity sample_world new_server (JStr ''Paris'') (JNum 1) =
              (Inr (Locations (paris # [])), paris_cached)"
    by (rule paris_first_fetch)
  have g1: "geocodeCity ?on new_server (JStr ''Paris'') (JNum 1) =
              (Inr (Locations (paris # [])), paris_cached)"
    by (simp add: paris_first_fetch)
  have p1: "getWeatherForecast ?on paris_cached (JNum (latitude paris))
              (JNum (longitude paris)) (JNum 1) = (Inr (ForecastResult mild_day), ?S1)"
    and p7: "getWeatherForecast ?on paris_cached (JNum (latitude paris))
              (JNum (longitude paris)) (JNum 7) = (Inr (ForecastResult mild_day), ?S7)"
    using q1 q7 by simp_all
  note w0 = fallback_never_fails [OF h0, of new_server ?args, THEN conjunct1, rule_format,
      unfolded a, OF g0 q1]
  note w1 = fallback_never_fails [OF h1, of new_server ?args, THEN conjunct1, rule_format,
      unfolded a, OF g1 p1]
  note v0 = fallback_never_fails [OF h0, of new_server ?args, THEN conjunct2, THEN conjunct1,
      rule_format, unfolded a, OF g0 q7]
  note v1 = fallback_never_fails [OF h1, of new_server ?args, THEN conjunct2, THEN conjunct1,
      rule_format, unfolded a, OF g1 p7]
  have c: "arg ?coords ''latitude'' = JNum 49" "arg ?coords ''longitude'' = JNum 2"
    and k: "JNum 1 = (if arg ?coords ''days'' = JUndefined then JNum 1 else arg ?coords ''days'')"
    by (simp_all add: arg_def)
  have fc1: "getWeatherForecast ?on new_server (JNum 49) (JNum 2) (JNum 1) =
               (Inr (ForecastResult mild_day), forecast_cached)"
    by (simp add: forecast_first_fetch)
  note u0 = fallback_never_fails [OF h0, of new_server ?coords, THEN conjunct2, THEN conjunct2,
      rule_format, OF c k forecast_first_fetch refl refl]
  note u1 = fallback_never_fails [OF h1, of new_server ?coords, THEN conjunct2, THEN conjunct2,
      rule_format, OF c k fc1 refl refl]
  have r0: "isError (fst (callTool sample_world new_server ''get_weather'' ?args)) = None
    \<and> content (fst (callTool sample_world new_server ''get_weather'' ?args)) =
       [\<lparr>block_type = ''text'',
         block_text =
           ''**Current Weather in Paris, Ile-de-France, France**\<newline>\<newline>''
           @ thermometer @ '' **Temperature:** 20'' @ deg @ ''C (feels like 19'' @ deg @ ''C)\<newline>''
           @ cloud @ '' **Condition:** Partly cloudy\<newline>''
           @ droplet @ '' **Humidity:** 60%\<newline>''
           @ wind_face @ '' **Wind:** 12 km/h (gusts up to 25 km/h)\<newline>''
           @ bar_chart @ '' **Pressure:** 1015 hPa\<newline>''
           @ cloud @ '' **Cloud Cover:** 40%\<newline>''
           @ clock_face @ '' **Time of Day:** '' @ sun @ '' Day\<newline>''
           @ ''\<newline>'' @ pushpin @ '' **Location:** 49.00'' @ deg @ '', 2.00'' @ deg
           @ '' (42m elevation)''\<rparr>]"
    using w0 off by (auto simp: paris_chat_text)
  have r1: "isError (fst (callTool ?on new_server ''get_weather'' ?args)) = None
    \<and> content (fst (callTool ?on new_server ''get_weather'' ?args)) =
       [\<lparr>block_type = ''text'',
         block_text = ''The current weather in Paris is 20'' @ deg
                      @ ''C with partly cloudy. Pleasant weather overall!''\<rparr>]"
    using w1 on by (auto simp: paris_fallback_text)
  have r2: "isError (fst (callTool sample_world new_server ''get_forecast'' ?args)) = None
    \<and> content (fst (callTool sample_world new_server ''get_forecast'' ?args)) =
       [\<lparr>block_type = ''text'',
         block_text =
           ''**7-Day Weather Forecast for Paris, Ile-de-France, France**\<newline>\<newline>''
           @ calendar @ '' **Today, Jun 1**\<newline>''
           @ ''   '' @ thermometer @ '' 14'' @ deg @ '' - 23'' @ deg @ ''C\<newline>''
           @ ''   '' @ cloud @ '' Partly cloudy\<newline>''
           @ ''   '' @ dash_symbol @ '' Wind up to 18 km/h\<newline>''
           @ ''\<newline>''\<rparr>]"
    using v0 off paris_forecast_chat_text [of False] by (auto simp: sample_world_def)
  have r3: "isError (fst (callTool ?on new_server ''get_forecast'' ?args)) = None
    \<and> content (fst (callTool ?on new_server ''get_forecast'' ?args)) =
       [\<lparr>block_type = ''text'',
         block_text = ''The forecast for Paris shows 14-23'' @ deg
                      @ ''C today with partly cloudy. Looks like a dry week ahead!''\<rparr>]"
    using v1 on d by (auto simp: paris_forecast_fallback_text)
  have r4: "isError (fst (callTool sample_world new_server ''get_weather_by_coords'' ?coords)) = None
    \<and> content (fst (callTool sample_world new_server ''get_weather_by_coords'' ?coords)) =
       [\<lparr>block_type = ''text'',
         block_text =
           ''**Current Weather in Location (49.00, 2.00), undefined**\<newline>\<newline>''
           @ thermometer @ '' **Temperature:** 20'' @ deg @ ''C (feels like 19'' @ deg @ ''C)\<newline>''
           @ cloud @ '' **Condition:** Partly cloudy\<newline>''
           @ droplet @ '' **Humidity:** 60%\<newline>''
           @ wind_face @ '' **Wind:** 12 km/h (gusts up to 25 km/h)\<newline>''
           @ bar_chart @ '' **Pressure:** 1015 hPa\<newline>''
           @ cloud @ '' **Cloud Cover:** 40%\<newline>''
           @ clock_face @ '' **Time of Day:** '' @ sun @ '' Day\<newline>''
           @ ''\<newline>'' @ pushpin @ '' **Location:** 49.00'' @ deg @ '', 2.00'' @ deg\<rparr>]"
    using u0 off coords_chat_text [OF refl, of sample_world] by auto
  have r5: "isError (fst (callTool ?on new_server ''get_weather_by_coords'' ?coords)) = None
    \<and> content (fst (callTool ?on new_server ''get_weather_by_coords'' ?coords)) =
       [\<lparr>block_type = ''text'',
         block_text = ''The current weather in coordinates 49.00, 2.00 is 20'' @ deg
                      @ ''C with partly cloudy. Pleasant weather overall!''\<rparr>]"
    using u1 on
      coords_fallback_text [of "Some \<lparr>name = ''Location ('' @ toFixed 2 49 @ '', '' @ toFixed 2 2 @ '')'',
          country = None, admin1 = None, latitude = 49, longitude = 2,
          timezone = None, population = None, elevation = None\<rparr>"]
    by auto
  from off m g0 f1 f7 forecast_first_fetch r0 r1 r2 r3 r4 r5 show ?thesis
    by (intro conjI) simp_all
qed


section \<open>The display unit\<close>

lemma paris_current:
  "getWeatherForChat sample_world new_server (JStr ''Paris'') False =
     (ChatOk \<lparr>response =
         ''**Current Weather in Paris, Ile-de-France, France**\<newline>\<newline>''
         @ thermometer @ '' **Temperature:** 20'' @ deg @ ''C (feels like 19'' @ deg @ ''C)\<newline>''
         @ cloud @ '' **Condition:** Partly cloudy\<newline>''
         @ droplet @ '' **Humidity:** 60%\<newline>''
         @ wind_face @ '' **Wind:** 12 km/h (gusts up to 25 km/h)\<newline>''
         @ bar_chart @ '' **Pressure:** 1015 hPa\<newline>''
         @ cloud @ '' **Cloud Cover:** 40%\<newline>''
         @ clock_face @ '' **Time of Day:** '' @ sun @ '' Day\<newline>''
         @ ''\<newline>'' @ pushpin @ '' **Location:** 49.00'' @ deg @ '', 2.00'' @ deg
         @ '' (42m elevation)'',
       chat_data = mild_day\<lparr>location := Some paris\<rparr>, chat_type = ''current''\<rparr>,
      attach_location
        (snd (getWeatherForecast sample_world paris_cached (JNum 49) (JNum 2) (JNum 1)))
        (forecast_key (JNum 49) (JNum 2) (JNum 1)) paris)"
proof -
  have g: "geocodeCity sample_world new_server (JStr ''Paris'') (JNum 1) =
             (Inr (Locations [paris]), paris_cached)"
    by (simp add: paris_cached_def geocodeCity_def Let_def cached_def new_server_def
        sample_world_def await_def cache_set_def)
  have f: "fst (getWeatherForecast sample_world paris_cached (JNum 49) (JNum 2) (JNum 1)) =
             Inr (ForecastResult mild_day)"
    by (simp add: paris_cached_def geocodeCity_def getWeatherForecast_def Let_def cached_def
        new_server_def sample_world_def await_def cache_set_def mild_day_def geocode_key_def
        forecast_key_def)
  have r: "formatCurrentWeatherForChat (mild_day\<lparr>location := Some paris\<rparr>) =
     Inr \<lparr>response =
         ''**Current Weather in Paris, Ile-de-France, France**\<newline>\<newline>''
         @ thermometer @ '' **Temperature:** 20'' @ deg @ ''C (feels like 19'' @ deg @ ''C)\<newline>''
         @ cloud @ '' **Condition:** Partly cloudy\<newline>''
         @ droplet @ '' **Humidity:** 60%\<newline>''
         @ wind_face @ '' **Wind:** 12 km/h (gusts up to 25 km/h)\<newline>''
         @ bar_chart @ '' **Pressure:** 1015 hPa\<newline>''
         @ cloud @ '' **Cloud Cover:** 40%\<newline>''
         @ clock_face @ '' **Time of Day:** '' @ sun @ '' Day\<newline>''
         @ ''\<newline>'' @ pushpin @ '' **Location:** 49.00'' @ deg @ '', 2.00'' @ deg
         @ '' (42m elevation)'',
       chat_data = mild_day\<lparr>location := Some paris\<rparr>, chat_type = ''current''\<rparr>"
    by (simp add: formatCurrentWeatherForChat_def Let_def mild_day_def paris_def place_line_def
        truthy_str_def truthy_num_def opt_str_def opt_num_def show_int_def show_nat.simps
        digit_char_def getWeatherDescription_def weatherCodes_def toFixed_def numeral_2_eq_2)
  obtain p s2 where q: "getWeatherForecast sample_world paris_cached (JNum 49) (JNum 2) (JNum 1) = (p, s2)"
    by (cases "getWeatherForecast sample_world paris_cached (JNum 49) (JNum 2) (JNum 1)")
  with f have p: "p = Inr (ForecastResult mild_day)" by simp
  have l: "latitude paris = 49" "longitude paris = 2" by (simp_all add: paris_def)
  show ?thesis
    by (simp add: getWeatherForChat_def g l q p r)
qed

text \<open>
  Claim C6 (the unit is selected by a flag threaded through the call into the rendered
  temperatures).  The code does not do this.  The flag reaches the handlers of the
  SDK-based server and is handed to \<^verbatim>\<open>getWeatherForChat\<close> as a third argument, which
  that method does not declare: the tools \<^verbatim>\<open>get_weather_fahrenheit\<close> and
  \<^verbatim>\<open>get_forecast_fahrenheit\<close> return, for every city, collaborator and state, what
  \<^verbatim>\<open>get_weather\<close> and \<^verbatim>\<open>get_forecast\<close> return.  For Paris at 20 degrees Celsius
  the Fahrenheit tool prints "20" followed by the degree sign and "C".  The detection
  from free text is as the claim says: the message is not empty and its lower-case form
  has one of the keywords as a substring.
\<close>

theorem fahrenheit_tool_renders_celsius:
  "tool_get_weather_fahrenheit w s city = tool_get_weather w s city
   \<and> tool_get_forecast_fahrenheit w s city days = tool_get_forecast w s city days
   \<and> content (fst (tool_get_weather_fahrenheit sample_world new_server (JStr ''Paris''))) =
       [\<lparr>block_type = ''text'',
         block_text =
           ''**Current Weather in Paris, Ile-de-France, France**\<newline>\<newline>''
           @ thermometer @ '' **Temperature:** 20'' @ deg @ ''C (feels like 19'' @ deg @ ''C)\<newline>''
           @ cloud @ '' **Condition:** Partly cloudy\<newline>''
           @ droplet @ '' **Humidity:** 60%\<newline>''
           @ wind_face @ '' **Wind:** 12 km/h (gusts up to 25 km/h)\<newline>''
           @ bar_chart @ '' **Pressure:** 1015 hPa\<newline>''
           @ cloud @ '' **Cloud Cover:** 40%\<newline>''
           @ clock_face @ '' **Time of Day:** '' @ sun @ '' Day\<newline>''
           @ ''\<newline>'' @ pushpin @ '' **Location:** 49.00'' @ deg @ '', 2.00'' @ deg
           @ '' (42m elevation)''\<rparr>]
   \<and> temperature (current mild_day) = 20
   \<and> detectFahrenheitPreference m =
       (m \<noteq> [] \<and> (\<exists>k \<in> set fahrenheitKeywords. sublist k (toLowerCase m)))"
proof -
  have 1: "tool_get_weather_fahrenheit w s city = tool_get_weather w s city"
    by (simp add: tool_get_weather_fahrenheit_def tool_get_weather_def
        RealMCP_handleGetWeather_def getWeatherForChat_3_def)
  have 2: "tool_get_forecast_fahrenheit w s city days = tool_get_forecast w s city days"
    by (simp add: tool_get_forecast_fahrenheit_def tool_get_forecast_def
        RealMCP_handleGetForecast_def getWeatherForChat_3_def)
  have c: "\<not> claudeService sample_world" by (simp add: sample_world_def)
  have 3: "content (fst (tool_get_weather_fahrenheit sample_world new_server (JStr ''Paris''))) =
       [\<lparr>block_type = ''text'',
         block_text =
           ''**Current Weather in Paris, Ile-de-France, France**\<newline>\<newline>''
           @ thermometer @ '' **Temperature:** 20'' @ deg @ ''C (feels like 19'' @ deg @ ''C)\<newline>''
           @ cloud @ '' **Condition:** Partly cloudy\<newline>''
           @ droplet @ '' **Humidity:** 60%\<newline>''
           @ wind_face @ '' **Wind:** 12 km/h (gusts up to 25 km/h)\<newline>''
           @ bar_chart @ '' **Pressure:** 1015 hPa\<newline>''
           @ cloud @ '' **Cloud Cover:** 40%\<newline>''
           @ clock_face @ '' **Time of Day:** '' @ sun @ '' Day\<newline>''
           @ ''\<newline>'' @ pushpin @ '' **Location:** 49.00'' @ deg @ '', 2.00'' @ deg
           @ '' (42m elevation)''\<rparr>]"
    using c
    by (simp add: tool_get_weather_fahrenheit_def RealMCP_handleGetWeather_def
        getWeatherForChat_3_def paris_current text_result_def)
  have 4: "temperature (current mild_day) = 20" by (simp add: mild_day_def)
  have 5: "detectFahrenheitPreference m =
       (m \<noteq> [] \<and> (\<exists>k \<in> set fahrenheitKeywords. sublist k (toLowerCase m)))"
    by (simp add: detectFahrenheitPreference_def list_ex_iff str_includes_sublist)
  from 1 2 3 4 5 show ?thesis by blast
qed

section \<open>Session ids on tool calls\<close>

lemma initializeMCPSession_sent:
  assumes "initializeMCPSession p g = (r, g1)"
  shows "\<exists>new. sent g1 = sent g @ new \<and> list_all with_session new"
  using assms
  by (auto simp: initializeMCPSession_def Let_def with_session_def is_tools_call_def
      split: if_splits http_outcome.splits response_data.splits)

lemma initializeMCPSession_truthy:
  assumes "\<forall>hist. carries_id (p hist \<lparr>session_header = None, rpc = Initialize\<rparr>)"
    and "initializeMCPSession p g = (Inr sid, g1)"
  shows "truthy_id (mcpSessionId g1)"
proof (cases "truthy_id (mcpSessionId g)")
  case True
  with assms(2) show ?thesis by (simp add: initializeMCPSession_def)
next
  case False
  from assms(1) have c: "carries_id (p (sent g) \<lparr>session_header = None, rpc = Initialize\<rparr>)"
    by blast
  with False assms(2) show ?thesis
    by (auto simp: initializeMCPSession_def Let_def connect_failed_def
        split: if_splits http_outcome.splits response_data.splits)
qed

lemma attempt_sent:
  assumes i: "\<forall>hist. carries_id (p hist \<lparr>session_header = None, rpc = Initialize\<rparr>)"
    and a: "attempt p g t a = (r, g')"
  shows "\<exists>new. sent g' = sent g @ new \<and> list_all with_session new"
proof -
  obtain r1 g1 where init: "initializeMCPSession p g = (r1, g1)"
    by (cases "initializeMCPSession p g")
  from initializeMCPSession_sent [OF init] obtain new where
    n: "sent g1 = sent g @ new" "list_all with_session new" by blast
  show ?thesis
  proof (cases r1)
    case (Inl e)
    with init a n show ?thesis by (auto simp: attempt_def)
  next
    case (Inr sid)
    with init i have t: "truthy_id (mcpSessionId g1)"
      by (auto dest: initializeMCPSession_truthy)
    have "with_session (call_request g1 t a)"
      using t by (simp add: with_session_def call_request_def)
    moreover have "sent g' = sent g1 @ [call_request g1 t a]"
      using a init Inr by (auto simp: attempt_def Let_def split: http_outcome.splits)
    ultimately show ?thesis using n by simp
  qed
qed

lemma callMCPTool_sent:
  assumes i: "\<forall>hist. carries_id (p hist \<lparr>session_header = None, rpc = Initialize\<rparr>)"
  shows "\<exists>new. sent (snd (callMCPTool n p g t a)) = sent g @ new \<and> list_all with_session new"
proof (induction n arbitrary: g)
  case 0
  show ?case by simp
next
  case (Suc n)
  obtain r g' where at: "attempt p g t a = (r, g')" by (cases "attempt p g t a")
  from attempt_sent [OF i at] obtain new where
    n: "sent g' = sent g @ new" "list_all with_session new" by blast
  show ?case
  proof (cases "\<exists>e. r = Inl e \<and> is_400 e")
    case False
    with at n show ?thesis by (cases r) auto
  next
    case True
    then obtain e where e: "r = Inl e" "is_400 e" by blast
    from Suc.IH [of "g'\<lparr>mcpSessionId := None\<rparr>"] obtain more where
      m: "sent (snd (callMCPTool n p (g'\<lparr>mcpSessionId := None\<rparr>) t a)) = sent g' @ more"
         "list_all with_session more"
      by auto
    with at e n show ?thesis by simp
  qed
qed

text \<open>
  Claim C7, as the code has it.  A tool call is sent only after
  \<^verbatim>\<open>initializeMCPSession\<close> has returned: when it throws, the attempt ends with its
  error and no tool call is sent.  When it returns, the one request the attempt sends is
  the tool call, whose session header is the stored id if that id is truthy and is left
  out otherwise.  If every handshake answer of the provider carries a session id, then in
  every state that \<^verbatim>\<open>callMCPTool\<close> reaches, after any number of attempts, every tool
  call it has sent carries a session id that is not empty.
\<close>

theorem tool_calls_carry_session:
  "(\<forall>e g1. initializeMCPSession p g = (Inl e, g1) \<longrightarrow>
      attempt p g t a = (Inl e, g1)
      \<and> filter is_tools_call (sent g1) = filter is_tools_call (sent g))
   \<and> (\<forall>sid g1. initializeMCPSession p g = (Inr sid, g1) \<longrightarrow>
        sent (snd (attempt p g t a)) =
          sent g1 @ [\<lparr>session_header =
                        (if truthy_id (mcpSessionId g1) then mcpSessionId g1 else None),
                      rpc = ToolsCall t a\<rparr>])
   \<and> ((\<forall>hist. carries_id (p hist \<lparr>session_header = None, rpc = Initialize\<rparr>)) \<longrightarrow>
        (\<exists>new. sent (snd (callMCPTool n p g t a)) = sent g @ new
           \<and> (\<forall>r \<in> set new. is_tools_call r \<longrightarrow>
                 (\<exists>sid. session_header r = Some sid \<and> sid \<noteq> []))))"
proof -
  have 1: "attempt p g t a = (Inl e, g1)
           \<and> filter is_tools_call (sent g1) = filter is_tools_call (sent g)"
    if "initializeMCPSession p g = (Inl e, g1)" for e g1
    using that
    by (auto simp: attempt_def initializeMCPSession_def Let_def is_tools_call_def
        split: if_splits http_outcome.splits response_data.splits)
  have 2: "sent (snd (attempt p g t a)) =
          sent g1 @ [\<lparr>session_header =
                        (if truthy_id (mcpSessionId g1) then mcpSessionId g1 else None),
                      rpc = ToolsCall t a\<rparr>]"
    if "initializeMCPSession p g = (Inr sid, g1)" for sid g1
    using that by (simp add: attempt_def Let_def call_request_def split: http_outcome.splits)
  have 3: "\<exists>new. sent (snd (callMCPTool n p g t a)) = sent g @ new
           \<and> (\<forall>r \<in> set new. is_tools_call r \<longrightarrow>
                 (\<exists>sid. session_header r = Some sid \<and> sid \<noteq> []))"
    if i: "\<forall>hist. carries_id (p hist \<lparr>session_header = None, rpc = Initialize\<rparr>)"
  proof -
    from callMCPTool_sent [of p n g t a] i obtain new where
      n: "sent (snd (callMCPTool n p g t a)) = sent g @ new" "list_all with_session new"
      by blast
    have "\<exists>sid. session_header r = Some sid \<and> sid \<noteq> []"
      if "r \<in> set new" "is_tools_call r" for r
    proof -
      from that n(2) have "truthy_id (session_header r)"
        by (auto simp: list_all_iff with_session_def)
      then show ?thesis by (simp add: truthy_id_def split: option.splits)
    qed
    with n(1) show ?thesis by blast
  qed
  from 1 2 3 show ?thesis by blast
qed

text \<open>
  Claim C7 as stated (no tool call is sent without a session id) fails against a provider
  whose handshake answer has no \<^verbatim>\<open>mcp-session-id\<close> header: the handshake succeeds,
  the stored id stays undefined, and the tool call is sent without the header (and
  served).
\<close>

theorem tool_calls_carry_session_counterexample:
  "callMCPTool 1 stateless_provider fresh_gateway ''get_weather'' [(''city'', JStr ''Paris'')] =
     (Returned ''{}'',
      \<lparr>mcpSessionId = None,
       sent = [\<lparr>session_header = None, rpc = Initialize\<rparr>,
               \<lparr>session_header = None,
                rpc = ToolsCall ''get_weather'' [(''city'', JStr ''Paris'')]\<rparr>]\<rparr>)"
  by (simp add: attempt_def initializeMCPSession_def stateless_provider_def fresh_gateway_def
      truthy_id_def call_request_def read_message_def Let_def)

theorem tool_calls_carry_session_witness:
  "initializeMCPSession unreachable_provider fresh_gateway =
     (Inl connect_failed, fresh_gateway\<lparr>sent := [\<lparr>session_header = None, rpc = Initialize\<rparr>]\<rparr>)
   \<and> attempt unreachable_provider fresh_gateway ''get_weather'' [(''city'', JStr ''Paris'')] =
       (Inl connect_failed, fresh_gateway\<lparr>sent := [\<lparr>session_header = None, rpc = Initialize\<rparr>]\<rparr>)
   \<and> initializeMCPSession session_provider fresh_gateway =
       (Inr (Some ''session-1''),
        \<lparr>mcpSessionId = Some ''session-1'', sent = [\<lparr>session_header = None, rpc = Initialize\<rparr>]\<rparr>)
   \<and> sent (snd (attempt session_provider fresh_gateway ''get_weather'' [(''city'', JStr ''Paris'')])) =
       [\<lparr>session_header = None, rpc = Initialize\<rparr>,
        \<lparr>session_header = Some ''session-1'',
         rpc = ToolsCall ''get_weather'' [(''city'', JStr ''Paris'')]\<rparr>]
   \<and> (\<forall>hist. carries_id (session_provider hist \<lparr>session_header = None, rpc = Initialize\<rparr>))
   \<and> (\<exists>new. sent (snd (callMCPTool 2 session_provider fresh_gateway ''get_weather''
                          [(''city'', JStr ''Paris'')])) = sent fresh_gateway @ new
         \<and> (\<forall>r \<in> set new. is_tools_call r \<longrightarrow> (\<exists>sid. session_header r = Some sid \<and> sid \<noteq> [])))"
proof -
  let ?args = "[(''city'', JStr ''Paris'')]"
  let ?g0 = "fresh_gateway\<lparr>sent := [\<lparr>session_header = None, rpc = Initialize\<rparr>]\<rparr>"
  let ?g1 = "\<lparr>mcpSessionId = Some ''session-1'',
             sent = [\<lparr>session_header = None, rpc = Initialize\<rparr>]\<rparr>"
  have u: "initializeMCPSession unreachable_provider fresh_gateway = (Inl connect_failed, ?g0)"
    by (simp add: initializeMCPSession_def unreachable_provider_def fresh_gateway_def
        truthy_id_def Let_def)
  have i: "initializeMCPSession session_provider fresh_gateway = (Inr (Some ''session-1''), ?g1)"
    by (simp add: initializeMCPSession_def session_provider_def fresh_gateway_def
        truthy_id_def Let_def)
  have c: "\<forall>hist. carries_id (session_provider hist \<lparr>session_header = None, rpc = Initialize\<rparr>)"
    by (simp add: session_provider_def truthy_id_def)
  note T = tool_calls_carry_session [of unreachable_provider fresh_gateway "''get_weather''" ?args]
  note S = tool_calls_carry_session [of session_provider fresh_gateway "''get_weather''" ?args 2]
  from T [THEN conjunct1, rule_format, OF u]
  have 1: "attempt unreachable_provider fresh_gateway ''get_weather'' ?args = (Inl connect_failed, ?g0)"
    by simp
  from S [THEN conjunct2, THEN conjunct1, rule_format, OF i]
  have 2: "sent (snd (attempt session_provider fresh_gateway ''get_weather'' ?args)) =
       [\<lparr>session_header = None, rpc = Initialize\<rparr>,
        \<lparr>session_header = Some ''session-1'', rpc = ToolsCall ''get_weather'' ?args\<rparr>]"
    by (simp add: truthy_id_def)
  note 3 = S [THEN conjunct2, THEN conjunct2, THEN mp, OF c]
  from u 1 i 2 c 3 show ?thesis by blast
qed

end
